theory Spec2Isabelle
  imports Complex_Main "HOL-Library.Log_Nat"
begin

section \<open>Numeric cells\<close>

text \<open>
  The numeric columns of the pipeline are pandas \<open>float64\<close> columns. A cell is a value
  of \<open>fval\<close>: a finite number, a negative zero, one of the two infinities, or NaN (which
  is also pandas' marker of a missing numeric cell). \<open>Fin q\<close> is the finite cell whose
  exact value is the rational \<open>q\<close>, and \<open>Fin 0\<close> is the positive zero. Every arithmetic
  operation computes the exact result and rounds it to binary64 (\<open>float64\<close> below), as
  IEEE 754 prescribes.
\<close>

datatype fval = Fin rat | NegZero | PInf | NInf | NaN

fun is_nan :: "fval \<Rightarrow> bool" where
  "is_nan NaN = True"
| "is_nan _ = False"

fun is_inf :: "fval \<Rightarrow> bool" where
  "is_inf PInf = True"
| "is_inf NInf = True"
| "is_inf _ = False"

fun is_zero :: "fval \<Rightarrow> bool" where
  "is_zero (Fin q) = (q = 0)"
| "is_zero NegZero = True"
| "is_zero _ = False"

text \<open>The sign bit (\<open>True\<close> for negative).\<close>

fun fsign :: "fval \<Rightarrow> bool" where
  "fsign (Fin q) = (q < 0)"
| "fsign NegZero = True"
| "fsign NInf = True"
| "fsign _ = False"

fun rat_of :: "fval \<Rightarrow> rat" where
  "rat_of (Fin q) = q"
| "rat_of _ = 0"

definition inf_of :: "bool \<Rightarrow> fval" where
  "inf_of neg = (if neg then NInf else PInf)"

definition zero_of :: "bool \<Rightarrow> fval" where
  "zero_of neg = (if neg then NegZero else Fin 0)"

subsection \<open>Rounding to binary64\<close>

text \<open>Rounding to the nearest integer, ties to even (C's \<open>rint\<close> in the default mode).\<close>

definition rint :: "rat \<Rightarrow> int" where
  "rint q =
     (let f = \<lfloor>q\<rfloor>; d = q - of_int f
      in if d < 1 / 2 then f
         else if 1 / 2 < d then f + 1
         else if even f then f else f + 1)"

definition pow2 :: "int \<Rightarrow> rat" where
  "pow2 z = (if 0 \<le> z then 2 ^ nat z else 1 / 2 ^ nat (- z))"

text \<open>The binary exponent of a positive rational: \<open>2 ^ e \<le> a < 2 ^ (e + 1)\<close>.\<close>

definition ilog2 :: "rat \<Rightarrow> int" where
  "ilog2 a = (let (n, d) = quotient_of a; t = bitlen n - bitlen d
              in if pow2 t \<le> a then t else t - 1)"

text \<open>
  The binary64 value nearest to a rational, ties to even: 53 significant bits, exponents
  from \<open>- 1022\<close> to \<open>1023\<close>, subnormal numbers in steps of \<open>2 ^ - 1074\<close>; a result beyond
  the largest finite number is an infinity, a result that rounds to nothing is a zero of
  the sign of the exact value.
\<close>

definition float64 :: "rat \<Rightarrow> fval" where
  "float64 q =
     (if q = 0 then Fin 0
      else let a = \<bar>q\<bar>; e = ilog2 a
        in if 1023 < e then inf_of (q < 0)
           else let u = pow2 (max e (- 1022) - 52); k = rint (a / u)
             in if k = 0 then zero_of (q < 0)
                else if e = 1023 \<and> 2 ^ 53 \<le> k then inf_of (q < 0)
                else Fin (if q < 0 then - (of_int k * u) else of_int k * u))"

text \<open>A cell that a \<open>float64\<close> variable can hold: a finite cell is its own rounding.\<close>

definition is_float64 :: "fval \<Rightarrow> bool" where
  "is_float64 x = (case x of Fin q \<Rightarrow> float64 q = Fin q | _ \<Rightarrow> True)"

subsection \<open>Arithmetic\<close>

text \<open>
  Multiplication and addition take the rounding of the finite results as a parameter: the
  program computes with \<open>float64\<close> (\<open>fmul\<close>, \<open>fadd\<close>); the rounding \<open>Fin\<close>, which keeps the
  exact result, gives exact rational arithmetic with the same special values.
\<close>

definition fmul_with :: "(rat \<Rightarrow> fval) \<Rightarrow> fval \<Rightarrow> fval \<Rightarrow> fval" where
  "fmul_with rnd x y =
     (if is_nan x \<or> is_nan y then NaN
      else if is_inf x \<or> is_inf y then
        (if is_zero x \<or> is_zero y then NaN else inf_of (fsign x \<noteq> fsign y))
      else if is_zero x \<or> is_zero y then zero_of (fsign x \<noteq> fsign y)
      else rnd (rat_of x * rat_of y))"

definition fmul :: "fval \<Rightarrow> fval \<Rightarrow> fval" where
  "fmul = fmul_with float64"

definition fdiv :: "fval \<Rightarrow> fval \<Rightarrow> fval" where
  "fdiv x y =
     (if is_nan x \<or> is_nan y then NaN
      else if is_inf x then (if is_inf y then NaN else inf_of (fsign x \<noteq> fsign y))
      else if is_inf y then zero_of (fsign x \<noteq> fsign y)
      else if is_zero y then (if is_zero x then NaN else inf_of (fsign x \<noteq> fsign y))
      else if is_zero x then zero_of (fsign x \<noteq> fsign y)
      else float64 (rat_of x / rat_of y))"

definition fadd_with :: "(rat \<Rightarrow> fval) \<Rightarrow> fval \<Rightarrow> fval \<Rightarrow> fval" where
  "fadd_with rnd x y =
     (if is_nan x \<or> is_nan y then NaN
      else if is_inf x then (if is_inf y \<and> fsign x \<noteq> fsign y then NaN else x)
      else if is_inf y then y
      else if is_zero x \<and> is_zero y then zero_of (fsign x \<and> fsign y)
      else rnd (rat_of x + rat_of y))"

definition fadd :: "fval \<Rightarrow> fval \<Rightarrow> fval" where
  "fadd = fadd_with float64"

fun fneg :: "fval \<Rightarrow> fval" where
  "fneg (Fin q) = (if q = 0 then NegZero else Fin (- q))"
| "fneg NegZero = Fin 0"
| "fneg PInf = NInf"
| "fneg NInf = PInf"
| "fneg NaN = NaN"

definition fsub :: "fval \<Rightarrow> fval \<Rightarrow> fval" where
  "fsub x y = fadd x (fneg y)"

text \<open>The comparison \<open>x < 0\<close> of a cell with zero; it is false for NaN and for both zeros.\<close>

fun flt0 :: "fval \<Rightarrow> bool" where
  "flt0 (Fin q) = (q < 0)"
| "flt0 NInf = True"
| "flt0 _ = False"

subsection \<open>Rounding to decimals\<close>

text \<open>
  \<open>Series.round(d)\<close> is numpy's \<open>round\<close>: multiply by the float \<open>10 ^ d\<close>, round to the
  nearest integer with ties to even (\<open>rint\<close>), divide by the float \<open>10 ^ d\<close>. Both the
  product and the quotient are rounded to binary64, and the tie is decided on the rounded
  product.
\<close>

fun frint :: "fval \<Rightarrow> fval" where
  "frint (Fin q) = (if rint q = 0 \<and> q < 0 then NegZero else Fin (of_int (rint q)))"
| "frint x = x"

definition np_round :: "nat \<Rightarrow> fval \<Rightarrow> fval" where
  "np_round d x = (let f = float64 (10 ^ d) in fdiv (frint (fmul x f)) f)"

text \<open>
  A cell rounded to \<open>d\<close> decimals: a finite cell is the binary64 value nearest to an
  integer multiple of \<open>10 ^ - d\<close> (the value that the decimal literal denotes).
\<close>

definition has_decimals :: "nat \<Rightarrow> fval \<Rightarrow> bool" where
  "has_decimals d x = (case x of Fin q \<Rightarrow> (\<exists>k::int. float64 (of_int k / 10 ^ d) = Fin q) | _ \<Rightarrow> True)"

section \<open>The pipeline object\<close>

text \<open>
  \<open>DataIntegrationPipeline.__init__\<close> sets the rate table, the target currency and the
  target unit. The rates are the floats that the decimal literals of the source denote.
\<close>

record pipeline =
  currency_rates :: "string \<rightharpoonup> fval"
  target_currency :: string
  target_unit :: string

definition init :: pipeline where
  "init = \<lparr> currency_rates =
              [''Germany'' \<mapsto> float64 (107 / 100), ''USA'' \<mapsto> float64 1,
               ''India'' \<mapsto> float64 (12 / 1000), ''UK'' \<mapsto> float64 (121 / 100),
               ''Brazil'' \<mapsto> float64 (20 / 100)],
            target_currency = ''USD'',
            target_unit = ''millions'' \<rparr>"

text \<open>\<open>self.currency_rates.get(country, 1.0)\<close>; a missing country is no key of the table.\<close>

definition rate_of :: "pipeline \<Rightarrow> string option \<Rightarrow> fval" where
  "rate_of self country =
     (case country of
        None \<Rightarrow> Fin 1
      | Some c \<Rightarrow> (case currency_rates self c of None \<Rightarrow> Fin 1 | Some r \<Rightarrow> r))"

text \<open>\<open>amount * rate\<close>, with the rounding of the product as a parameter.\<close>

definition convert_currency_with ::
  "(rat \<Rightarrow> fval) \<Rightarrow> pipeline \<Rightarrow> fval \<Rightarrow> string option \<Rightarrow> fval" where
  "convert_currency_with rnd self amount country =
     (let rate = rate_of self country in fmul_with rnd amount rate)"

definition convert_currency :: "pipeline \<Rightarrow> fval \<Rightarrow> string option \<Rightarrow> fval" where
  "convert_currency = convert_currency_with float64"

section \<open>The tables\<close>

text \<open>
  A data frame is the list of its rows, in index order. A cell of an object column
  (\<open>company_name\<close>, \<open>industry\<close>, ...) is \<open>None\<close> when it is missing; a missing numeric
  cell is \<open>NaN\<close>.
\<close>

record private_record =
  raw_company_name :: "string option"
  raw_industry :: "string option"
  revenue_local :: fval
  ebitda_local :: fval
  raw_valuation_multiple :: fval
  raw_country :: "string option"
  raw_fiscal_year :: "int option"
  raw_currency :: "string option"

record benchmark =
  bm_industry :: "string option"
  bm_average_margin :: fval
  bm_sector_growth_rate :: fval
  bm_average_valuation_multiple :: fval
  bm_market_size_billions :: fval

record normalized_private =
  company_name :: "string option"
  industry :: "string option"
  country :: "string option"
  fiscal_year :: "int option"
  revenue :: fval
  ebitda :: fval
  ebitda_margin :: fval
  valuation_multiple :: fval

record merged = normalized_private +
  average_margin :: fval
  sector_growth_rate :: fval
  average_valuation_multiple :: fval
  market_size_billions :: fval

record integrated = merged +
  data_source :: "string option"
  currency :: "string option"
  units :: "string option"
  last_updated :: "string option"
  valuation_vs_sector_avg :: fval
  margin_vs_sector_avg :: fval

section \<open>normalize_private_data\<close>

text \<open>\<open>normalized[final_columns]\<close>: the row of the final schema, from the raw row and the new columns.\<close>

definition final_columns ::
  "private_record \<Rightarrow> fval \<Rightarrow> fval \<Rightarrow> fval \<Rightarrow> fval \<Rightarrow> normalized_private" where
  "final_columns row rv eb mg vm =
     \<lparr> company_name = raw_company_name row, industry = raw_industry row,
       country = raw_country row, fiscal_year = raw_fiscal_year row,
       revenue = rv, ebitda = eb, ebitda_margin = mg, valuation_multiple = vm \<rparr>"

text \<open>
  The function works column by column, as the source does: two \<open>apply\<close> passes convert,
  three \<open>round(2)\<close> passes round, the margin column is computed from the two rounded
  columns by an unguarded float division, and the final columns are selected.
\<close>

definition normalize_private_data :: "pipeline \<Rightarrow> private_record list \<Rightarrow> normalized_private list" where
  "normalize_private_data self df =
     (let revenue0 = map (\<lambda>row. convert_currency self (revenue_local row) (raw_country row)) df;
          ebitda0 = map (\<lambda>row. convert_currency self (ebitda_local row) (raw_country row)) df;
          revenue1 = map (np_round 2) revenue0;
          ebitda1 = map (np_round 2) ebitda0;
          valuation1 = map (np_round 2) (map raw_valuation_multiple df);
          margin = map (np_round 2)
                     (map (\<lambda>(e, r). fmul (fdiv e r) (Fin 100)) (zip ebitda1 revenue1))
      in map (\<lambda>(row, rv, eb, mg, vm). final_columns row rv eb mg vm)
           (zip df (zip revenue1 (zip ebitda1 (zip margin valuation1)))))"

section \<open>normalize_benchmark_data\<close>

definition normalize_benchmark_data :: "benchmark list \<Rightarrow> benchmark list" where
  "normalize_benchmark_data df =
     map (\<lambda>b. b\<lparr> bm_average_margin := np_round 2 (bm_average_margin b),
                 bm_sector_growth_rate := np_round 2 (bm_sector_growth_rate b),
                 bm_average_valuation_multiple := np_round 2 (bm_average_valuation_multiple b),
                 bm_market_size_billions := np_round 2 (bm_market_size_billions b) \<rparr>) df"

section \<open>integrate_data\<close>

text \<open>
  \<open>pd.merge(private_df, benchmark_df, on='industry', how='left')\<close>: the rows of the left
  frame in their order; a left row is paired with every right row of the same key, in the
  order of the right frame, and with a row of NaN when no right row has its key. Two
  missing keys are equal keys for \<open>merge\<close>.
\<close>

definition matches :: "benchmark list \<Rightarrow> normalized_private \<Rightarrow> benchmark list" where
  "matches right l = filter (\<lambda>r. bm_industry r = industry l) right"

definition paired :: "normalized_private \<Rightarrow> fval \<Rightarrow> fval \<Rightarrow> fval \<Rightarrow> fval \<Rightarrow> merged" where
  "paired l am sg avm ms =
     \<lparr> company_name = company_name l, industry = industry l, country = country l,
       fiscal_year = fiscal_year l, revenue = revenue l, ebitda = ebitda l,
       ebitda_margin = ebitda_margin l, valuation_multiple = valuation_multiple l,
       average_margin = am, sector_growth_rate = sg,
       average_valuation_multiple = avm, market_size_billions = ms \<rparr>"

definition left_rows :: "benchmark list \<Rightarrow> normalized_private \<Rightarrow> merged list" where
  "left_rows right l =
     (case matches right l of
        [] \<Rightarrow> [paired l NaN NaN NaN NaN]
      | ms \<Rightarrow> map (\<lambda>r. paired l (bm_average_margin r) (bm_sector_growth_rate r)
                          (bm_average_valuation_multiple r) (bm_market_size_billions r)) ms)"

definition merge_left :: "normalized_private list \<Rightarrow> benchmark list \<Rightarrow> merged list" where
  "merge_left left right = concat (map (left_rows right) left)"

text \<open>The merged row with the four metadata columns and the two delta columns.\<close>

definition with_columns :: "pipeline \<Rightarrow> string \<Rightarrow> merged \<Rightarrow> fval \<Rightarrow> fval \<Rightarrow> integrated" where
  "with_columns self now m v g =
     \<lparr> company_name = company_name m, industry = industry m, country = country m,
       fiscal_year = fiscal_year m, revenue = revenue m, ebitda = ebitda m,
       ebitda_margin = ebitda_margin m, valuation_multiple = valuation_multiple m,
       average_margin = average_margin m, sector_growth_rate = sector_growth_rate m,
       average_valuation_multiple = average_valuation_multiple m,
       market_size_billions = market_size_billions m,
       data_source = Some ''Integrated_Private_and_Benchmark'',
       currency = Some (target_currency self), units = Some (target_unit self),
       last_updated = Some now,
       valuation_vs_sector_avg = v, margin_vs_sector_avg = g \<rparr>"

text \<open>\<open>now\<close> is the string of \<open>datetime.now()\<close>, read once.\<close>

definition integrate_data ::
  "pipeline \<Rightarrow> normalized_private list \<Rightarrow> benchmark list \<Rightarrow> string \<Rightarrow> integrated list" where
  "integrate_data self private_df benchmark_df now =
     (let integrated0 = merge_left private_df benchmark_df;
          valuation_vs = map (np_round 2)
            (map (\<lambda>m. fsub (valuation_multiple m) (average_valuation_multiple m)) integrated0);
          margin_vs = map (np_round 2)
            (map (\<lambda>m. fsub (ebitda_margin m) (average_margin m)) integrated0)
      in map (\<lambda>(m, v, g). with_columns self now m v g)
           (zip integrated0 (zip valuation_vs margin_vs)))"

text \<open>The private columns of an integrated row.\<close>

definition private_part :: "integrated \<Rightarrow> normalized_private" where
  "private_part row =
     \<lparr> company_name = company_name row, industry = industry row, country = country row,
       fiscal_year = fiscal_year row, revenue = revenue row, ebitda = ebitda row,
       ebitda_margin = ebitda_margin row, valuation_multiple = valuation_multiple row \<rparr>"

section \<open>validate_data\<close>

record validation_results =
  total_records :: nat
  missing_values :: "(string \<times> nat) list"
  duplicate_companies :: nat
  negative_values :: "(string \<times> nat) list"
  data_quality_score :: fval

text \<open>The sum of a boolean column: the number of rows where the test holds.\<close>

definition count_true :: "('a \<Rightarrow> bool) \<Rightarrow> 'a list \<Rightarrow> nat" where
  "count_true t df = length (filter t df)"

text \<open>The 18 columns of the integrated frame, and one row of \<open>df.isnull()\<close>.\<close>

definition columns :: "string list" where
  "columns =
     [''company_name'', ''industry'', ''country'', ''fiscal_year'', ''revenue'', ''ebitda'',
      ''ebitda_margin'', ''valuation_multiple'', ''average_margin'', ''sector_growth_rate'',
      ''average_valuation_multiple'', ''market_size_billions'', ''data_source'', ''currency'',
      ''units'', ''last_updated'', ''valuation_vs_sector_avg'', ''margin_vs_sector_avg'']"

definition isnull :: "integrated \<Rightarrow> bool list" where
  "isnull r =
     [company_name r = None, industry r = None, country r = None, fiscal_year r = None,
      is_nan (revenue r), is_nan (ebitda r), is_nan (ebitda_margin r),
      is_nan (valuation_multiple r), is_nan (average_margin r), is_nan (sector_growth_rate r),
      is_nan (average_valuation_multiple r), is_nan (market_size_billions r),
      data_source r = None, currency r = None, units r = None, last_updated r = None,
      is_nan (valuation_vs_sector_avg r), is_nan (margin_vs_sector_avg r)]"

text \<open>\<open>df.isnull().sum().to_dict()\<close>: the number of missing cells of each column.\<close>

definition isnull_sum :: "integrated list \<Rightarrow> (string \<times> nat) list" where
  "isnull_sum df =
     map (\<lambda>j. (columns ! j, count_true (\<lambda>r. isnull r ! j) df)) [0..<length columns]"

text \<open>
  \<open>Series.duplicated()\<close> (\<open>keep='first'\<close>): a value is marked when it was seen in an
  earlier row. Two missing values are the same value.
\<close>

fun duplicated_from :: "'a list \<Rightarrow> 'a list \<Rightarrow> bool list" where
  "duplicated_from seen [] = []"
| "duplicated_from seen (x # xs) = (x \<in> set seen) # duplicated_from (x # seen) xs"

definition duplicated :: "'a list \<Rightarrow> bool list" where
  "duplicated xs = duplicated_from [] xs"

text \<open>\<open>df.shape[0] * df.shape[1]\<close> and \<open>df.isnull().sum().sum()\<close>.\<close>

definition total_cells :: "integrated list \<Rightarrow> nat" where
  "total_cells df = length df * length columns"

definition missing_cells :: "integrated list \<Rightarrow> nat" where
  "missing_cells df = sum_list (map snd (isnull_sum df))"

text \<open>
  \<open>(total_cells - missing_cells) / total_cells\<close> divides a numpy integer by an integer:
  numpy converts both to \<open>float64\<close> and divides. A zero divisor raises nothing; numpy
  emits a \<open>RuntimeWarning\<close> (``invalid value encountered'' for \<open>0 / 0\<close>, ``divide by zero
  encountered'' otherwise) and returns NaN or an infinity. The function returns the
  quotient and the warnings it emits.
\<close>

datatype runtime_warning = InvalidValue | DivideByZero

definition np_true_divide :: "int \<Rightarrow> int \<Rightarrow> fval \<times> runtime_warning list" where
  "np_true_divide a b =
     (let x = float64 (of_int a); y = float64 (of_int b)
      in (fdiv x y,
          if is_zero y then (if is_zero x then [InvalidValue] else [DivideByZero]) else []))"

definition validate_data :: "integrated list \<Rightarrow> validation_results" where
  "validate_data df =
     \<lparr> total_records = length df,
       missing_values = isnull_sum df,
       duplicate_companies = count_true id (duplicated (map company_name df)),
       negative_values = [(''revenue'', count_true (\<lambda>r. flt0 (revenue r)) df),
                          (''ebitda'', count_true (\<lambda>r. flt0 (ebitda r)) df)],
       data_quality_score =
         np_round 2
           (fmul (fst (np_true_divide (int (total_cells df) - int (missing_cells df))
                         (int (total_cells df))))
                 (Fin 100)) \<rparr>"

text \<open>The warnings that a call of \<open>validate_data\<close> emits.\<close>

definition validate_data_warnings :: "integrated list \<Rightarrow> runtime_warning list" where
  "validate_data_warnings df =
     snd (np_true_divide (int (total_cells df) - int (missing_cells df)) (int (total_cells df)))"

section \<open>Facts about binary64\<close>

lemma float64_0: "float64 0 = Fin 0"
  by (simp add: float64_def)

lemma float64_1: "float64 1 = Fin 1"
  by code_simp

lemma float64_100: "float64 100 = Fin 100"
  by code_simp

lemma rint_of_int: "rint (of_int j) = j"
  by (simp add: rint_def)

lemma pow2_nonpos: "z \<le> 0 \<Longrightarrow> pow2 z = 1 / 2 ^ nat (- z)"
  by (cases "z = 0") (simp_all add: pow2_def)

lemma quotient_of_of_int: "quotient_of (of_int n) = (n, 1)"
  by (simp add: of_int_rat quotient_of_Fract)

lemma ilog2_of_int:
  assumes "0 < n"
  shows "ilog2 (of_int n) = bitlen n - 1"
proof -
  have b1: "bitlen 1 = 1" by (simp add: bitlen_alt_def)
  from assms have ge: "1 \<le> bitlen n" by (auto simp: bitlen_alt_def)
  from bitlen_bounds [OF assms] have "2 ^ nat (bitlen n - 1) \<le> n" by blast
  then have "(of_int (2 ^ nat (bitlen n - 1)) :: rat) \<le> of_int n"
    by (simp only: of_int_le_iff)
  then have "pow2 (bitlen n - 1) \<le> of_int n"
    using ge by (simp add: pow2_def)
  then show ?thesis
    by (simp add: ilog2_def quotient_of_of_int b1)
qed

lemma float64_of_int:
  assumes "0 < n" and "n < 2 ^ 53"
  shows "float64 (of_int n) = Fin (of_int n)"
proof -
  define t where "t = bitlen n - 1"
  define m where "m = nat (52 - t)"
  from assms(1) have ge: "0 \<le> t" by (auto simp: t_def bitlen_alt_def)
  have "bitlen n \<le> 53"
    using assms(2) by (simp add: bitlen_le_iff_power)
  then have le: "t \<le> 52" by (simp add: t_def)
  have e: "ilog2 (of_int n) = t"
    unfolding t_def by (rule ilog2_of_int [OF assms(1)])
  have u: "pow2 (max t (- 1022) - 52) = 1 / 2 ^ m"
    using ge le by (simp add: pow2_nonpos m_def max_def)
  have q: "(of_int n :: rat) / (1 / 2 ^ m) = of_int (n * 2 ^ m)"
    by simp
  have k: "rint ((of_int n :: rat) / (1 / 2 ^ m)) = n * 2 ^ m"
    unfolding q by (rule rint_of_int)
  have nz: "n * 2 ^ m \<noteq> 0" using assms(1) by simp
  have abs: "\<bar>of_int n :: rat\<bar> = of_int n" using assms(1) by simp
  have pos: "\<not> (of_int n :: rat) < 0" "(of_int n :: rat) \<noteq> 0" using assms(1) by simp_all
  have e1023: "\<not> 1023 < t" "t \<noteq> 1023" using le by simp_all
  show ?thesis
    unfolding float64_def abs Let_def e u k
    using pos nz e1023 by simp
qed


section \<open>Currency conversion\<close>

lemma fmul_one: "is_float64 x \<Longrightarrow> fmul x (Fin 1) = x"
  by (cases x) (simp_all add: fmul_def fmul_with_def is_float64_def inf_of_def zero_of_def float64_0)

lemma rate_Germany: "float64 (107 / 100) = Fin (4818851601286431 / 4503599627370496)"
  by code_simp

lemma rate_India: "float64 (3 / 250) = Fin (3458764513820541 / 288230376151711744)"
  by code_simp

lemma rate_UK: "float64 (121 / 100) = Fin (1362338887279575 / 1125899906842624)"
  by code_simp

lemma rate_Brazil: "float64 (1 / 5) = Fin (3602879701896397 / 18014398509481984)"
  by code_simp

lemma rate_of_init:
  "rate_of init c \<in>
     {Fin 1, Fin (4818851601286431 / 4503599627370496),
      Fin (3458764513820541 / 288230376151711744),
      Fin (1362338887279575 / 1125899906842624),
      Fin (3602879701896397 / 18014398509481984)}"
proof (cases c)
  case None
  then show ?thesis by (simp add: rate_of_def)
next
  case (Some s)
  then show ?thesis
    by (simp add: rate_of_def init_def rate_Germany rate_India rate_UK rate_Brazil float64_1)
qed

lemma rate_of_init_pos: "\<exists>r. 0 < r \<and> rate_of init c = Fin r"
proof -
  have "\<exists>r. 0 < r \<and> x = Fin r"
    if "x \<in> {Fin 1, Fin (4818851601286431 / 4503599627370496),
      Fin (3458764513820541 / 288230376151711744),
      Fin (1362338887279575 / 1125899906842624),
      Fin (3602879701896397 / 18014398509481984)}" for x
  proof -
    from that consider "x = Fin 1" | "x = Fin (4818851601286431 / 4503599627370496)"
      | "x = Fin (3458764513820541 / 288230376151711744)"
      | "x = Fin (1362338887279575 / 1125899906842624)"
      | "x = Fin (3602879701896397 / 18014398509481984)" by blast
    then show ?thesis
    proof cases
      case 1
      have "(0::rat) < 1" by simp
      with 1 show ?thesis by blast
    next
      case 2
      have "(0::rat) < 4818851601286431 / 4503599627370496" by simp
      with 2 show ?thesis by blast
    next
      case 3
      have "(0::rat) < 3458764513820541 / 288230376151711744" by simp
      with 3 show ?thesis by blast
    next
      case 4
      have "(0::rat) < 1362338887279575 / 1125899906842624" by simp
      with 4 show ?thesis by blast
    next
      case 5
      have "(0::rat) < 3602879701896397 / 18014398509481984" by simp
      with 5 show ?thesis by blast
    qed
  qed
  from this [OF rate_of_init] show ?thesis .
qed

lemma fmul_exact_distrib:
  assumes "0 < r"
  shows "fmul_with Fin (fadd_with Fin a b) (Fin r) =
         fadd_with Fin (fmul_with Fin a (Fin r)) (fmul_with Fin b (Fin r))"
proof -
  have nz: "r \<noteq> 0" using assms by simp
  have neg: "\<And>q. (q * r < 0) = (q < 0)"
    using assms by (simp add: mult_less_0_iff)
  have nn: "\<not> r < 0" using assms by simp
  have sum0: "\<And>p q. p + q = 0 \<Longrightarrow> p * r + q * r = 0"
    by (simp add: distrib_right [symmetric])
  show ?thesis
    using nz neg nn sum0
    by (cases a; cases b)
       (simp_all add: fmul_with_def fadd_with_def inf_of_def zero_of_def distrib_right)
qed

lemma fmul_finite: "q \<noteq> 0 \<Longrightarrow> r \<noteq> 0 \<Longrightarrow> fmul_with rnd (Fin q) (Fin r) = rnd (q * r)"
  by (simp add: fmul_with_def)

text \<open>
  C7. A country that is no key of the rate table converts at rate 1.0, and the product of
  a float with 1.0 is that float: the amount comes back unchanged, also a zero, an infinity
  or NaN. A country of the table converts to the product of amount and rate; for a finite
  amount and rate, both not zero, that is the exact product rounded to binary64. The
  function has no error result.
\<close>

theorem convert_currency_fallback:
  "(currency_rates self c = None \<and> is_float64 x \<longrightarrow> convert_currency self x (Some c) = x) \<and>
   (currency_rates self c = Some rate \<longrightarrow> convert_currency self x (Some c) = fmul x rate) \<and>
   (currency_rates self c = Some (Fin r) \<and> q \<noteq> 0 \<and> r \<noteq> 0 \<longrightarrow>
      convert_currency self (Fin q) (Some c) = float64 (q * r))"
proof -
  have a: "currency_rates self c = None \<and> is_float64 x \<longrightarrow> convert_currency self x (Some c) = x"
    using fmul_one [of x]
    by (simp add: convert_currency_def convert_currency_with_def rate_of_def fmul_def)
  have b: "currency_rates self c = Some rate \<longrightarrow> convert_currency self x (Some c) = fmul x rate"
    by (simp add: convert_currency_def convert_currency_with_def rate_of_def fmul_def)
  have c: "currency_rates self c = Some (Fin r) \<and> q \<noteq> 0 \<and> r \<noteq> 0 \<longrightarrow>
      convert_currency self (Fin q) (Some c) = float64 (q * r)"
    by (simp add: convert_currency_def convert_currency_with_def rate_of_def fmul_finite)
  from a b c show ?thesis by blast
qed


text \<open>
  France is no key: 5.5 stays 5.5. Germany has rate 1.07: 100 becomes 107.0, and 5.5 becomes
  5.885000000000001, which is not the float 5.885.
\<close>

theorem convert_currency_fallback_witness:
  "currency_rates init ''France'' = None \<and>
   is_float64 (Fin (11 / 2)) \<and>
   convert_currency init (Fin (11 / 2)) (Some ''France'') = Fin (11 / 2) \<and>
   currency_rates init ''Germany'' = Some (Fin (4818851601286431 / 4503599627370496)) \<and>
   convert_currency init (Fin 100) (Some ''Germany'') = Fin 107 \<and>
   convert_currency init (Fin (11 / 2)) (Some ''Germany'') =
     float64 (5885000000000001 / 1000000000000000) \<and>
   float64 (5885000000000001 / 1000000000000000) \<noteq> float64 (5885 / 1000)"
proof -
  have h1: "currency_rates init ''France'' = None" by (simp add: init_def)
  have h2: "is_float64 (Fin (11 / 2))" by code_simp
  have h3: "currency_rates init ''Germany'' = Some (Fin (4818851601286431 / 4503599627370496))"
    by (simp add: init_def rate_Germany)
  have n1: "(100::rat) \<noteq> 0" "(11 / 2 :: rat) \<noteq> 0" "(4818851601286431 / 4503599627370496 :: rat) \<noteq> 0"
    by simp_all
  from convert_currency_fallback [of init "''France''" "Fin (11 / 2)"] h1 h2
  have c1: "convert_currency init (Fin (11 / 2)) (Some ''France'') = Fin (11 / 2)" by blast
  from convert_currency_fallback [of init "''Germany''" _ _ "4818851601286431 / 4503599627370496" 100] h3 n1
  have "convert_currency init (Fin 100) (Some ''Germany'') = float64 (100 * (4818851601286431 / 4503599627370496))"
    by blast
  also have "\<dots> = Fin 107" by code_simp
  finally have c2: "convert_currency init (Fin 100) (Some ''Germany'') = Fin 107" .
  from convert_currency_fallback [of init "''Germany''" _ _ "4818851601286431 / 4503599627370496" "11 / 2"] h3 n1
  have "convert_currency init (Fin (11 / 2)) (Some ''Germany'') = float64 (11 / 2 * (4818851601286431 / 4503599627370496))"
    by blast
  also have "\<dots> = float64 (5885000000000001 / 1000000000000000)" by code_simp
  finally have c3: "convert_currency init (Fin (11 / 2)) (Some ''Germany'') =
     float64 (5885000000000001 / 1000000000000000)" .
  have c4: "float64 (5885000000000001 / 1000000000000000) \<noteq> float64 (5885 / 1000)"
    by code_simp
  from h1 h2 c1 h3 c2 c3 c4 show ?thesis by blast
qed

text \<open>
  C8. With the rate table of the pipeline, conversion in exact rational arithmetic
  distributes over the sum of two amounts: an equality for every pair of cells and every
  country (also a missing one). The program's conversion of a finite amount other than
  zero is the binary64 rounding of the exact conversion, so in floats the equality holds
  up to rounding.
\<close>

theorem convert_currency_linear:
  "convert_currency_with Fin init (fadd_with Fin a b) c =
     fadd_with Fin (convert_currency_with Fin init a c) (convert_currency_with Fin init b c) \<and>
   (q \<noteq> 0 \<longrightarrow>
      convert_currency init (Fin q) c = float64 (rat_of (convert_currency_with Fin init (Fin q) c)))"
proof -
  from rate_of_init_pos [of c] obtain r where r: "0 < r" "rate_of init c = Fin r" by blast
  have lin: "convert_currency_with Fin init (fadd_with Fin a b) c =
     fadd_with Fin (convert_currency_with Fin init a c) (convert_currency_with Fin init b c)"
    by (simp add: convert_currency_with_def r(2) fmul_exact_distrib [OF r(1)])
  have rnd: "q \<noteq> 0 \<longrightarrow>
      convert_currency init (Fin q) c = float64 (rat_of (convert_currency_with Fin init (Fin q) c))"
    using r by (simp add: convert_currency_def convert_currency_with_def fmul_finite)
  from lin rnd show ?thesis by blast
qed


text \<open>5.5 at the rate of Germany, exactly and in binary64.\<close>

theorem convert_currency_linear_witness:
  "(11 / 2 :: rat) \<noteq> 0 \<and>
   convert_currency_with Fin init (Fin (11 / 2)) (Some ''Germany'') =
     Fin (11 / 2 * (4818851601286431 / 4503599627370496)) \<and>
   convert_currency init (Fin (11 / 2)) (Some ''Germany'') =
     float64 (11 / 2 * (4818851601286431 / 4503599627370496))"
proof -
  have h: "(11 / 2 :: rat) \<noteq> 0" by simp
  have e: "convert_currency_with Fin init (Fin (11 / 2)) (Some ''Germany'') =
     Fin (11 / 2 * (4818851601286431 / 4503599627370496))"
    by code_simp
  from convert_currency_linear [of _ _ "Some ''Germany''" "11 / 2"] h
  have "convert_currency init (Fin (11 / 2)) (Some ''Germany'') =
     float64 (rat_of (convert_currency_with Fin init (Fin (11 / 2)) (Some ''Germany'')))"
    by blast
  then have "convert_currency init (Fin (11 / 2)) (Some ''Germany'') =
     float64 (11 / 2 * (4818851601286431 / 4503599627370496))"
    by (simp only: e rat_of.simps)
  with h e show ?thesis by blast
qed

section \<open>Normalization of the private records\<close>

lemma normalize_private_data_map:
  "normalize_private_data self df =
     map (\<lambda>row.
        final_columns row
          (np_round 2 (convert_currency self (revenue_local row) (raw_country row)))
          (np_round 2 (convert_currency self (ebitda_local row) (raw_country row)))
          (np_round 2 (fmul (fdiv (np_round 2 (convert_currency self (ebitda_local row) (raw_country row)))
                                  (np_round 2 (convert_currency self (revenue_local row) (raw_country row))))
                            (Fin 100)))
          (np_round 2 (raw_valuation_multiple row))) df"
  unfolding normalize_private_data_def Let_def
  by (induction df) simp_all

lemma float64_10_2: "float64 (10 ^ 2) = Fin 100"
  by code_simp

lemma np_round_2: "np_round 2 x = fdiv (frint (fmul x (Fin 100))) (Fin 100)"
  unfolding np_round_def Let_def float64_10_2 by (rule refl)

lemma has_decimals_float64: "has_decimals 2 (float64 (of_int k / 100))"
proof (cases "float64 (of_int k / 100)")
  case (Fin q)
  then have "float64 (of_int k / 10 ^ 2) = Fin q" by simp
  then have "\<exists>j::int. float64 (of_int j / 10 ^ 2) = Fin q" by (rule exI)
  with Fin show ?thesis by (simp add: has_decimals_def)
qed (simp_all add: has_decimals_def)

lemma has_decimals_zero: "has_decimals 2 (Fin 0)"
  using has_decimals_float64 [of 0] by (simp add: float64_0)

lemma has_decimals_unscale: "has_decimals 2 (fdiv (frint y) (Fin 100))"
proof (cases y)
  case (Fin q)
  show ?thesis
  proof (cases "rint q = 0")
    case True
    with Fin show ?thesis
      by (simp add: fdiv_def zero_of_def has_decimals_zero) (simp add: has_decimals_def)
  next
    case False
    with Fin have "fdiv (frint y) (Fin 100) = float64 (of_int (rint q) / 100)"
      by (simp add: fdiv_def)
    then show ?thesis by (simp only: has_decimals_float64)
  qed
qed (simp_all add: fdiv_def zero_of_def inf_of_def has_decimals_def)

lemma has_decimals_np_round: "has_decimals 2 (np_round 2 x)"
  unfolding np_round_2 by (rule has_decimals_unscale)

lemma company_a_example: "normalize_private_data init
           [\<lparr> raw_company_name = Some ''Company_A'', raw_industry = Some ''Technology'',
              revenue_local = Fin 100, ebitda_local = Fin 20, raw_valuation_multiple = Fin 10,
              raw_country = Some ''Germany'', raw_fiscal_year = fy, raw_currency = cur \<rparr>] =
           [\<lparr> company_name = Some ''Company_A'', industry = Some ''Technology'',
              country = Some ''Germany'', fiscal_year = fy,
              revenue = Fin 107, ebitda = float64 (2140 / 100), ebitda_margin = Fin 20,
              valuation_multiple = Fin 10 \<rparr>]"
  by code_simp

lemma margin_zero_revenue:
  "is_zero r \<Longrightarrow>
   np_round 2 (fmul (fdiv e r) (Fin 100)) =
     (if is_nan e \<or> is_zero e then NaN else inf_of (fsign e \<noteq> fsign r))"
  by (cases e; cases r)
     (simp_all add: np_round_2 fmul_def fmul_with_def fdiv_def inf_of_def zero_of_def)

text \<open>
  C6. Row \<open>i\<close> of the normalizer's output holds the converted revenue and ebitda rounded to
  2 decimals, the valuation multiple rounded to 2 decimals, and the margin
  \<open>round(ebitda / revenue * 100, 2)\<close> of the two rounded columns. Each of the four cells,
  when it is finite, is the float of a number with 2 decimal places. The row of Company_A
  (Germany, rate 1.07, revenue 100, ebitda 20, multiple 10) normalizes to revenue 107.0,
  ebitda 21.4 and margin 20.0.
\<close>

theorem normalize_private_data_rounded:
  assumes "i < length df" and "row = df ! i" and "out = normalize_private_data self df ! i"
  shows "revenue out = np_round 2 (convert_currency self (revenue_local row) (raw_country row)) \<and>
         ebitda out = np_round 2 (convert_currency self (ebitda_local row) (raw_country row)) \<and>
         valuation_multiple out = np_round 2 (raw_valuation_multiple row) \<and>
         ebitda_margin out = np_round 2 (fmul (fdiv (ebitda out) (revenue out)) (Fin 100)) \<and>
         has_decimals 2 (revenue out) \<and> has_decimals 2 (ebitda out) \<and>
         has_decimals 2 (ebitda_margin out) \<and> has_decimals 2 (valuation_multiple out) \<and>
         normalize_private_data init
           [\<lparr> raw_company_name = Some ''Company_A'', raw_industry = Some ''Technology'',
              revenue_local = Fin 100, ebitda_local = Fin 20, raw_valuation_multiple = Fin 10,
              raw_country = Some ''Germany'', raw_fiscal_year = fy, raw_currency = cur \<rparr>] =
           [\<lparr> company_name = Some ''Company_A'', industry = Some ''Technology'',
              country = Some ''Germany'', fiscal_year = fy,
              revenue = Fin 107, ebitda = float64 (2140 / 100), ebitda_margin = Fin 20,
              valuation_multiple = Fin 10 \<rparr>]"
proof -
  have o: "out =
        final_columns row
          (np_round 2 (convert_currency self (revenue_local row) (raw_country row)))
          (np_round 2 (convert_currency self (ebitda_local row) (raw_country row)))
          (np_round 2 (fmul (fdiv (np_round 2 (convert_currency self (ebitda_local row) (raw_country row)))
                                  (np_round 2 (convert_currency self (revenue_local row) (raw_country row))))
                            (Fin 100)))
          (np_round 2 (raw_valuation_multiple row))"
    unfolding assms(2,3) normalize_private_data_map using assms(1) by simp
  have fields: "revenue out = np_round 2 (convert_currency self (revenue_local row) (raw_country row))"
    "ebitda out = np_round 2 (convert_currency self (ebitda_local row) (raw_country row))"
    "valuation_multiple out = np_round 2 (raw_valuation_multiple row)"
    "ebitda_margin out = np_round 2 (fmul (fdiv (ebitda out) (revenue out)) (Fin 100))"
    unfolding o final_columns_def by simp_all
  have dec: "has_decimals 2 (revenue out)" "has_decimals 2 (ebitda out)"
    "has_decimals 2 (ebitda_margin out)" "has_decimals 2 (valuation_multiple out)"
    unfolding o final_columns_def by (simp_all add: has_decimals_np_round)
  show ?thesis
    using fields dec company_a_example [of fy cur] by blast
qed

text \<open>
  C2 (amended). When the rounded revenue of a row is zero, the normalizer raises nothing and
  the division follows IEEE 754: the margin is NaN when the rounded ebitda is zero or NaN,
  and otherwise an infinity whose sign is the product of the signs of ebitda and of the zero.
\<close>

theorem normalize_zero_revenue_margin:
  assumes "i < length df" and "out = normalize_private_data self df ! i"
    and "is_zero (revenue out)"
  shows "ebitda_margin out =
           (if is_nan (ebitda out) \<or> is_zero (ebitda out) then NaN
            else inf_of (fsign (ebitda out) \<noteq> fsign (revenue out)))"
proof -
  have "ebitda_margin out = np_round 2 (fmul (fdiv (ebitda out) (revenue out)) (Fin 100))"
    unfolding assms(2) normalize_private_data_map using assms(1)
    by (simp add: final_columns_def)
  with margin_zero_revenue [OF assms(3)] show ?thesis by simp
qed



text \<open>
  Two rows whose cells need rounding. Revenue 160 and ebitda 23 give the margin 14.37 (the
  float quotient is just below 14.375); 0.125 rounds to 0.12 (tie to even); 5.5 at rate
  1.07 is 5.885000000000001 and rounds to 5.89.
\<close>

theorem normalize_private_data_rounded_witness:
  "(0::nat) < length
     [\<lparr> raw_company_name = Some ''Company_B'', raw_industry = Some ''Energy'',
        revenue_local = Fin 160, ebitda_local = Fin 23, raw_valuation_multiple = Fin (1 / 8),
        raw_country = Some ''USA'', raw_fiscal_year = Some 2024,
        raw_currency = Some ''USD'' \<rparr>,
      \<lparr> raw_company_name = Some ''Company_C'', raw_industry = Some ''Retail'',
        revenue_local = Fin (11 / 2), ebitda_local = Fin (3 / 4),
        raw_valuation_multiple = Fin (1001 / 128),
        raw_country = Some ''Germany'', raw_fiscal_year = Some 2024,
        raw_currency = Some ''EUR'' \<rparr>] \<and>
   normalize_private_data init
     [\<lparr> raw_company_name = Some ''Company_B'', raw_industry = Some ''Energy'',
        revenue_local = Fin 160, ebitda_local = Fin 23, raw_valuation_multiple = Fin (1 / 8),
        raw_country = Some ''USA'', raw_fiscal_year = Some 2024,
        raw_currency = Some ''USD'' \<rparr>,
      \<lparr> raw_company_name = Some ''Company_C'', raw_industry = Some ''Retail'',
        revenue_local = Fin (11 / 2), ebitda_local = Fin (3 / 4),
        raw_valuation_multiple = Fin (1001 / 128),
        raw_country = Some ''Germany'', raw_fiscal_year = Some 2024,
        raw_currency = Some ''EUR'' \<rparr>] =
     [\<lparr> company_name = Some ''Company_B'', industry = Some ''Energy'',
        country = Some ''USA'', fiscal_year = Some 2024, revenue = Fin 160,
        ebitda = Fin 23, ebitda_margin = float64 (1437 / 100),
        valuation_multiple = float64 (12 / 100) \<rparr>,
      \<lparr> company_name = Some ''Company_C'', industry = Some ''Retail'',
        country = Some ''Germany'', fiscal_year = Some 2024,
        revenue = float64 (589 / 100), ebitda = float64 (80 / 100),
        ebitda_margin = float64 (1358 / 100),
        valuation_multiple = float64 (782 / 100) \<rparr>] \<and>
   ebitda_margin (normalize_private_data init
     [\<lparr> raw_company_name = Some ''Company_B'', raw_industry = Some ''Energy'',
        revenue_local = Fin 160, ebitda_local = Fin 23, raw_valuation_multiple = Fin (1 / 8),
        raw_country = Some ''USA'', raw_fiscal_year = Some 2024,
        raw_currency = Some ''USD'' \<rparr>,
      \<lparr> raw_company_name = Some ''Company_C'', raw_industry = Some ''Retail'',
        revenue_local = Fin (11 / 2), ebitda_local = Fin (3 / 4),
        raw_valuation_multiple = Fin (1001 / 128),
        raw_country = Some ''Germany'', raw_fiscal_year = Some 2024,
        raw_currency = Some ''EUR'' \<rparr>] ! 0) =
     np_round 2 (fmul (fdiv (ebitda (normalize_private_data init
     [\<lparr> raw_company_name = Some ''Company_B'', raw_industry = Some ''Energy'',
        revenue_local = Fin 160, ebitda_local = Fin 23, raw_valuation_multiple = Fin (1 / 8),
        raw_country = Some ''USA'', raw_fiscal_year = Some 2024,
        raw_currency = Some ''USD'' \<rparr>,
      \<lparr> raw_company_name = Some ''Company_C'', raw_industry = Some ''Retail'',
        revenue_local = Fin (11 / 2), ebitda_local = Fin (3 / 4),
        raw_valuation_multiple = Fin (1001 / 128),
        raw_country = Some ''Germany'', raw_fiscal_year = Some 2024,
        raw_currency = Some ''EUR'' \<rparr>] ! 0))
                            (revenue (normalize_private_data init
     [\<lparr> raw_company_name = Some ''Company_B'', raw_industry = Some ''Energy'',
        revenue_local = Fin 160, ebitda_local = Fin 23, raw_valuation_multiple = Fin (1 / 8),
        raw_country = Some ''USA'', raw_fiscal_year = Some 2024,
        raw_currency = Some ''USD'' \<rparr>,
      \<lparr> raw_company_name = Some ''Company_C'', raw_industry = Some ''Retail'',
        revenue_local = Fin (11 / 2), ebitda_local = Fin (3 / 4),
        raw_valuation_multiple = Fin (1001 / 128),
        raw_country = Some ''Germany'', raw_fiscal_year = Some 2024,
        raw_currency = Some ''EUR'' \<rparr>] ! 0))) (Fin 100)) \<and>
   has_decimals 2 (revenue (normalize_private_data init
     [\<lparr> raw_company_name = Some ''Company_B'', raw_industry = Some ''Energy'',
        revenue_local = Fin 160, ebitda_local = Fin 23, raw_valuation_multiple = Fin (1 / 8),
        raw_country = Some ''USA'', raw_fiscal_year = Some 2024,
        raw_currency = Some ''USD'' \<rparr>,
      \<lparr> raw_company_name = Some ''Company_C'', raw_industry = Some ''Retail'',
        revenue_local = Fin (11 / 2), ebitda_local = Fin (3 / 4),
        raw_valuation_multiple = Fin (1001 / 128),
        raw_country = Some ''Germany'', raw_fiscal_year = Some 2024,
        raw_currency = Some ''EUR'' \<rparr>] ! 0)) \<and>
   has_decimals 2 (ebitda (normalize_private_data init
     [\<lparr> raw_company_name = Some ''Company_B'', raw_industry = Some ''Energy'',
        revenue_local = Fin 160, ebitda_local = Fin 23, raw_valuation_multiple = Fin (1 / 8),
        raw_country = Some ''USA'', raw_fiscal_year = Some 2024,
        raw_currency = Some ''USD'' \<rparr>,
      \<lparr> raw_company_name = Some ''Company_C'', raw_industry = Some ''Retail'',
        revenue_local = Fin (11 / 2), ebitda_local = Fin (3 / 4),
        raw_valuation_multiple = Fin (1001 / 128),
        raw_country = Some ''Germany'', raw_fiscal_year = Some 2024,
        raw_currency = Some ''EUR'' \<rparr>] ! 0)) \<and>
   has_decimals 2 (ebitda_margin (normalize_private_data init
     [\<lparr> raw_company_name = Some ''Company_B'', raw_industry = Some ''Energy'',
        revenue_local = Fin 160, ebitda_local = Fin 23, raw_valuation_multiple = Fin (1 / 8),
        raw_country = Some ''USA'', raw_fiscal_year = Some 2024,
        raw_currency = Some ''USD'' \<rparr>,
      \<lparr> raw_company_name = Some ''Company_C'', raw_industry = Some ''Retail'',
        revenue_local = Fin (11 / 2), ebitda_local = Fin (3 / 4),
        raw_valuation_multiple = Fin (1001 / 128),
        raw_country = Some ''Germany'', raw_fiscal_year = Some 2024,
        raw_currency = Some ''EUR'' \<rparr>] ! 0)) \<and>
   has_decimals 2 (valuation_multiple (normalize_private_data init
     [\<lparr> raw_company_name = Some ''Company_B'', raw_industry = Some ''Energy'',
        revenue_local = Fin 160, ebitda_local = Fin 23, raw_valuation_multiple = Fin (1 / 8),
        raw_country = Some ''USA'', raw_fiscal_year = Some 2024,
        raw_currency = Some ''USD'' \<rparr>,
      \<lparr> raw_company_name = Some ''Company_C'', raw_industry = Some ''Retail'',
        revenue_local = Fin (11 / 2), ebitda_local = Fin (3 / 4),
        raw_valuation_multiple = Fin (1001 / 128),
        raw_country = Some ''Germany'', raw_fiscal_year = Some 2024,
        raw_currency = Some ''EUR'' \<rparr>] ! 0))"
proof -
  let ?df = "[\<lparr> raw_company_name = Some ''Company_B'', raw_industry = Some ''Energy'',
        revenue_local = Fin 160, ebitda_local = Fin 23, raw_valuation_multiple = Fin (1 / 8),
        raw_country = Some ''USA'', raw_fiscal_year = Some 2024,
        raw_currency = Some ''USD'' \<rparr>,
      \<lparr> raw_company_name = Some ''Company_C'', raw_industry = Some ''Retail'',
        revenue_local = Fin (11 / 2), ebitda_local = Fin (3 / 4),
        raw_valuation_multiple = Fin (1001 / 128),
        raw_country = Some ''Germany'', raw_fiscal_year = Some 2024,
        raw_currency = Some ''EUR'' \<rparr>]"
  have h1: "(0::nat) < length ?df" by simp
  have v: "normalize_private_data init ?df =
     [\<lparr> company_name = Some ''Company_B'', industry = Some ''Energy'',
        country = Some ''USA'', fiscal_year = Some 2024, revenue = Fin 160,
        ebitda = Fin 23, ebitda_margin = float64 (1437 / 100),
        valuation_multiple = float64 (12 / 100) \<rparr>,
      \<lparr> company_name = Some ''Company_C'', industry = Some ''Retail'',
        country = Some ''Germany'', fiscal_year = Some 2024,
        revenue = float64 (589 / 100), ebitda = float64 (80 / 100),
        ebitda_margin = float64 (1358 / 100),
        valuation_multiple = float64 (782 / 100) \<rparr>]"
    by code_simp
  from normalize_private_data_rounded [OF h1 refl refl, of init]
  have "ebitda_margin (normalize_private_data init ?df ! 0) =
     np_round 2 (fmul (fdiv (ebitda (normalize_private_data init ?df ! 0))
                            (revenue (normalize_private_data init ?df ! 0))) (Fin 100)) \<and>
   has_decimals 2 (revenue (normalize_private_data init ?df ! 0)) \<and>
   has_decimals 2 (ebitda (normalize_private_data init ?df ! 0)) \<and>
   has_decimals 2 (ebitda_margin (normalize_private_data init ?df ! 0)) \<and>
   has_decimals 2 (valuation_multiple (normalize_private_data init ?df ! 0))"
    by blast
  with h1 v show ?thesis by blast
qed

text \<open>A row whose revenue rounds to the negative zero: the margin is the negative infinity.\<close>

theorem normalize_zero_revenue_margin_witness:
  "(0::nat) < length
     [\<lparr> raw_company_name = Some ''Company_C'', raw_industry = Some ''Retail'',
        revenue_local = Fin (- (1 / 1024)), ebitda_local = Fin 20,
        raw_valuation_multiple = Fin 10, raw_country = Some ''USA'',
        raw_fiscal_year = Some 2024, raw_currency = Some ''USD'' \<rparr>] \<and>
   is_zero (revenue (normalize_private_data init
     [\<lparr> raw_company_name = Some ''Company_C'', raw_industry = Some ''Retail'',
        revenue_local = Fin (- (1 / 1024)), ebitda_local = Fin 20,
        raw_valuation_multiple = Fin 10, raw_country = Some ''USA'',
        raw_fiscal_year = Some 2024, raw_currency = Some ''USD'' \<rparr>] ! 0)) \<and>
   ebitda_margin (normalize_private_data init
     [\<lparr> raw_company_name = Some ''Company_C'', raw_industry = Some ''Retail'',
        revenue_local = Fin (- (1 / 1024)), ebitda_local = Fin 20,
        raw_valuation_multiple = Fin 10, raw_country = Some ''USA'',
        raw_fiscal_year = Some 2024, raw_currency = Some ''USD'' \<rparr>] ! 0) = NInf"
proof -
  let ?r = "\<lparr> raw_company_name = Some ''Company_C'', raw_industry = Some ''Retail'',
        revenue_local = Fin (- (1 / 1024)), ebitda_local = Fin 20,
        raw_valuation_multiple = Fin 10, raw_country = Some ''USA'',
        raw_fiscal_year = Some 2024, raw_currency = Some ''USD'' \<rparr>"
  have h1: "(0::nat) < length [?r]" by simp
  have rv: "revenue (normalize_private_data init [?r] ! 0) = NegZero" by code_simp
  have eb: "ebitda (normalize_private_data init [?r] ! 0) = Fin 20" by code_simp
  have h3: "is_zero (revenue (normalize_private_data init [?r] ! 0))" by (simp add: rv)
  from normalize_zero_revenue_margin [OF h1 refl h3]
  have "ebitda_margin (normalize_private_data init [?r] ! 0) = NInf"
    by (simp add: rv eb inf_of_def)
  with h1 h3 show ?thesis by blast
qed

text \<open>
  A row with revenue 0 and ebitda 20: the margin is the positive infinity, which is neither
  NaN nor a missing cell for pandas.
\<close>

theorem normalize_zero_revenue_counterexample:
  "revenue (hd (normalize_private_data init
     [\<lparr> raw_company_name = Some ''Company_C'', raw_industry = Some ''Retail'',
        revenue_local = Fin 0, ebitda_local = Fin 20, raw_valuation_multiple = Fin 10,
        raw_country = Some ''USA'', raw_fiscal_year = Some 2024,
        raw_currency = Some ''USD'' \<rparr>])) = Fin 0 \<and>
   ebitda_margin (hd (normalize_private_data init
     [\<lparr> raw_company_name = Some ''Company_C'', raw_industry = Some ''Retail'',
        revenue_local = Fin 0, ebitda_local = Fin 20, raw_valuation_multiple = Fin 10,
        raw_country = Some ''USA'', raw_fiscal_year = Some 2024,
        raw_currency = Some ''USD'' \<rparr>])) = PInf \<and>
   \<not> is_nan (ebitda_margin (hd (normalize_private_data init
     [\<lparr> raw_company_name = Some ''Company_C'', raw_industry = Some ''Retail'',
        revenue_local = Fin 0, ebitda_local = Fin 20, raw_valuation_multiple = Fin 10,
        raw_country = Some ''USA'', raw_fiscal_year = Some 2024,
        raw_currency = Some ''USD'' \<rparr>])))"
  by code_simp

section \<open>Integration\<close>

lemma integrate_data_map:
  "integrate_data self P B now =
     map (\<lambda>m. with_columns self now m
            (np_round 2 (fsub (valuation_multiple m) (average_valuation_multiple m)))
            (np_round 2 (fsub (ebitda_margin m) (average_margin m))))
       (merge_left P B)"
proof -
  have "map (\<lambda>(m, v, g). with_columns self now m v g) (zip ms (zip (map f ms) (map h ms)))
          = map (\<lambda>m. with_columns self now m (f m) (h m)) ms" for ms f h
    by (induction ms) simp_all
  then show ?thesis
    by (simp add: integrate_data_def Let_def)
qed

lemma np_round_NaN: "np_round d NaN = NaN"
  by (simp add: np_round_def Let_def fmul_def fmul_with_def fdiv_def)

lemma fsub_NaN: "fsub x NaN = NaN"
  by (simp add: fsub_def fadd_def fadd_with_def)

lemma length_left_rows: "length (left_rows B l) = max 1 (length (matches B l))"
  by (cases "matches B l") (simp_all add: left_rows_def)

lemma length_integrate_data:
  "length (integrate_data self P B now) = (\<Sum>p\<leftarrow>P. max 1 (length (matches B p)))"
  by (simp add: integrate_data_map merge_left_def length_concat comp_def length_left_rows)

lemma integrate_data_append:
  "integrate_data self (P1 @ P2) B now = integrate_data self P1 B now @ integrate_data self P2 B now"
  by (simp add: integrate_data_map merge_left_def)

lemma integrate_data_Cons:
  "integrate_data self (p # P) B now = integrate_data self [p] B now @ integrate_data self P B now"
  using integrate_data_append [of self "[p]" P B now] by simp

lemma integrate_data_unmatched:
  assumes "matches B p = []"
  shows "integrate_data self [p] B now =
           [with_columns self now (paired p NaN NaN NaN NaN) NaN NaN]"
  using assms
  by (simp add: integrate_data_map merge_left_def left_rows_def paired_def fsub_NaN np_round_NaN)

lemma integrate_data_matched:
  assumes "matches B p \<noteq> []"
  shows "integrate_data self [p] B now =
           map (\<lambda>b. with_columns self now
                  (paired p (bm_average_margin b) (bm_sector_growth_rate b)
                     (bm_average_valuation_multiple b) (bm_market_size_billions b))
                  (np_round 2 (fsub (valuation_multiple p) (bm_average_valuation_multiple b)))
                  (np_round 2 (fsub (ebitda_margin p) (bm_average_margin b))))
             (matches B p)"
proof (cases "matches B p")
  case Nil
  with assms show ?thesis by simp
next
  case (Cons b bs)
  then show ?thesis
    by (simp add: integrate_data_map merge_left_def left_rows_def paired_def)
qed

lemma private_part_with_columns:
  "private_part (with_columns self now (paired p a b c d) v g) = p"
  by (simp add: private_part_def with_columns_def paired_def)


lemma set_integrate_data:
  "set (integrate_data self P B now) = (\<Union>p\<in>set P. set (integrate_data self [p] B now))"
proof (induction P)
  case Nil
  show ?case by (simp add: integrate_data_map merge_left_def)
next
  case (Cons p P)
  show ?case
    using Cons.IH integrate_data_Cons [of self p P B now] by simp
qed

lemma length_le_sum_max: "length P \<le> (\<Sum>p\<leftarrow>P. max (1::nat) (k p))"
  by (induction P) simp_all

lemma sum_max_unique: "(\<forall>p\<in>set P. k p \<le> (1::nat)) \<Longrightarrow> (\<Sum>p\<leftarrow>P. max 1 (k p)) = length P"
  by (induction P) (simp_all add: max_def)

lemma bm_cells_matched:
  "matches B p \<noteq> [] \<Longrightarrow>
   map (\<lambda>row. (average_margin row, sector_growth_rate row,
                average_valuation_multiple row, market_size_billions row))
     (integrate_data self [p] B now) =
   map (\<lambda>b. (bm_average_margin b, bm_sector_growth_rate b,
              bm_average_valuation_multiple b, bm_market_size_billions b)) (matches B p)"
  by (simp add: integrate_data_matched comp_def with_columns_def paired_def)

lemma private_part_matched:
  "matches B p \<noteq> [] \<Longrightarrow>
   map private_part (integrate_data self [p] B now) = replicate (length (matches B p)) p"
  by (simp add: integrate_data_matched comp_def private_part_with_columns map_replicate_const)

text \<open>
  C1. \<open>integrate_data\<close> is a left outer join on \<open>industry\<close>. A private record with
  \<open>k\<close> benchmark rows of its industry gives \<open>max 1 k\<close> output rows, so the output is at
  least as long as the private input, and exactly as long when no record has two matches.
  The rows of a record stand together, at the record's position. A record without a match
  gives one row, with its own private cells and with NaN in the four benchmark columns and
  the two delta columns. A record with matches gives one row per matching benchmark row, in
  benchmark order, each with the cells of its benchmark row.
\<close>

theorem integrate_data_left_join:
  "length (integrate_data self P B now) = (\<Sum>p\<leftarrow>P. max 1 (length (matches B p))) \<and>
   length P \<le> length (integrate_data self P B now) \<and>
   ((\<forall>p\<in>set P. length (matches B p) \<le> 1) \<longrightarrow>
      length (integrate_data self P B now) = length P) \<and>
   integrate_data self (P1 @ p # P2) B now =
     integrate_data self P1 B now @ integrate_data self [p] B now @ integrate_data self P2 B now \<and>
   (matches B p = [] \<longrightarrow>
      length (integrate_data self [p] B now) = 1 \<and>
      (\<forall>row\<in>set (integrate_data self [p] B now).
         private_part row = p \<and>
         is_nan (average_margin row) \<and> is_nan (sector_growth_rate row) \<and>
         is_nan (average_valuation_multiple row) \<and> is_nan (market_size_billions row) \<and>
         is_nan (valuation_vs_sector_avg row) \<and> is_nan (margin_vs_sector_avg row))) \<and>
   (matches B p \<noteq> [] \<longrightarrow>
      length (integrate_data self [p] B now) = length (matches B p) \<and>
      map private_part (integrate_data self [p] B now) = replicate (length (matches B p)) p \<and>
      map (\<lambda>row. (average_margin row, sector_growth_rate row,
                   average_valuation_multiple row, market_size_billions row))
        (integrate_data self [p] B now) =
      map (\<lambda>b. (bm_average_margin b, bm_sector_growth_rate b,
                 bm_average_valuation_multiple b, bm_market_size_billions b)) (matches B p))"
proof -
  have len: "length (integrate_data self P B now) = (\<Sum>p\<leftarrow>P. max 1 (length (matches B p)))"
    by (rule length_integrate_data)
  have ge: "length P \<le> length (integrate_data self P B now)"
    unfolding len by (rule length_le_sum_max)
  have uniq: "(\<forall>p\<in>set P. length (matches B p) \<le> 1) \<longrightarrow>
      length (integrate_data self P B now) = length P"
    unfolding len using sum_max_unique [of P "\<lambda>p. length (matches B p)"] by blast
  have app: "integrate_data self (P1 @ p # P2) B now =
     integrate_data self P1 B now @ integrate_data self [p] B now @ integrate_data self P2 B now"
    by (simp add: integrate_data_append integrate_data_Cons [of self p P2])
  have none: "matches B p = [] \<longrightarrow>
      length (integrate_data self [p] B now) = 1 \<and>
      (\<forall>row\<in>set (integrate_data self [p] B now).
         private_part row = p \<and>
         is_nan (average_margin row) \<and> is_nan (sector_growth_rate row) \<and>
         is_nan (average_valuation_multiple row) \<and> is_nan (market_size_billions row) \<and>
         is_nan (valuation_vs_sector_avg row) \<and> is_nan (margin_vs_sector_avg row))"
    by (simp add: integrate_data_unmatched private_part_with_columns)
       (simp add: with_columns_def paired_def)
  have some: "matches B p \<noteq> [] \<longrightarrow>
      length (integrate_data self [p] B now) = length (matches B p) \<and>
      map private_part (integrate_data self [p] B now) = replicate (length (matches B p)) p \<and>
      map (\<lambda>row. (average_margin row, sector_growth_rate row,
                   average_valuation_multiple row, market_size_billions row))
        (integrate_data self [p] B now) =
      map (\<lambda>b. (bm_average_margin b, bm_sector_growth_rate b,
                 bm_average_valuation_multiple b, bm_market_size_billions b)) (matches B p)"
    using bm_cells_matched [of B p self now] private_part_matched [of B p self now]
    by (simp add: integrate_data_matched)
  from len ge uniq app none some show ?thesis by blast
qed


text \<open>One record without a benchmark row, and one with two benchmark rows of its industry.\<close>

theorem integrate_data_left_join_witness:
  "length (matches
      [\<lparr> bm_industry = Some ''Technology'', bm_average_margin = Fin 18,
         bm_sector_growth_rate = Fin 5, bm_average_valuation_multiple = Fin 9,
         bm_market_size_billions = Fin 100 \<rparr>,
       \<lparr> bm_industry = Some ''Technology'', bm_average_margin = Fin 19,
         bm_sector_growth_rate = Fin 6, bm_average_valuation_multiple = Fin 8,
         bm_market_size_billions = Fin 120 \<rparr>]
      \<lparr> company_name = Some ''Company_B'', industry = Some ''Mining'',
        country = Some ''USA'', fiscal_year = Some 2024, revenue = Fin 50,
        ebitda = Fin 5, ebitda_margin = Fin 10, valuation_multiple = Fin 7 \<rparr>) \<le> 1 \<and>
   length (integrate_data init [\<lparr> company_name = Some ''Company_B'', industry = Some ''Mining'',
        country = Some ''USA'', fiscal_year = Some 2024, revenue = Fin 50,
        ebitda = Fin 5, ebitda_margin = Fin 10, valuation_multiple = Fin 7 \<rparr>]
      [\<lparr> bm_industry = Some ''Technology'', bm_average_margin = Fin 18,
         bm_sector_growth_rate = Fin 5, bm_average_valuation_multiple = Fin 9,
         bm_market_size_billions = Fin 100 \<rparr>,
       \<lparr> bm_industry = Some ''Technology'', bm_average_margin = Fin 19,
         bm_sector_growth_rate = Fin 6, bm_average_valuation_multiple = Fin 8,
         bm_market_size_billions = Fin 120 \<rparr>] ''2024-01-01 00:00:00'') = 1 \<and>
   matches
      [\<lparr> bm_industry = Some ''Technology'', bm_average_margin = Fin 18,
         bm_sector_growth_rate = Fin 5, bm_average_valuation_multiple = Fin 9,
         bm_market_size_billions = Fin 100 \<rparr>,
       \<lparr> bm_industry = Some ''Technology'', bm_average_margin = Fin 19,
         bm_sector_growth_rate = Fin 6, bm_average_valuation_multiple = Fin 8,
         bm_market_size_billions = Fin 120 \<rparr>]
      \<lparr> company_name = Some ''Company_B'', industry = Some ''Mining'',
        country = Some ''USA'', fiscal_year = Some 2024, revenue = Fin 50,
        ebitda = Fin 5, ebitda_margin = Fin 10, valuation_multiple = Fin 7 \<rparr> = [] \<and>
   is_nan (average_margin (hd (integrate_data init [\<lparr> company_name = Some ''Company_B'', industry = Some ''Mining'',
        country = Some ''USA'', fiscal_year = Some 2024, revenue = Fin 50,
        ebitda = Fin 5, ebitda_margin = Fin 10, valuation_multiple = Fin 7 \<rparr>]
      [\<lparr> bm_industry = Some ''Technology'', bm_average_margin = Fin 18,
         bm_sector_growth_rate = Fin 5, bm_average_valuation_multiple = Fin 9,
         bm_market_size_billions = Fin 100 \<rparr>,
       \<lparr> bm_industry = Some ''Technology'', bm_average_margin = Fin 19,
         bm_sector_growth_rate = Fin 6, bm_average_valuation_multiple = Fin 8,
         bm_market_size_billions = Fin 120 \<rparr>] ''2024-01-01 00:00:00''))) \<and>
   is_nan (valuation_vs_sector_avg (hd (integrate_data init [\<lparr> company_name = Some ''Company_B'', industry = Some ''Mining'',
        country = Some ''USA'', fiscal_year = Some 2024, revenue = Fin 50,
        ebitda = Fin 5, ebitda_margin = Fin 10, valuation_multiple = Fin 7 \<rparr>]
      [\<lparr> bm_industry = Some ''Technology'', bm_average_margin = Fin 18,
         bm_sector_growth_rate = Fin 5, bm_average_valuation_multiple = Fin 9,
         bm_market_size_billions = Fin 100 \<rparr>,
       \<lparr> bm_industry = Some ''Technology'', bm_average_margin = Fin 19,
         bm_sector_growth_rate = Fin 6, bm_average_valuation_multiple = Fin 8,
         bm_market_size_billions = Fin 120 \<rparr>] ''2024-01-01 00:00:00''))) \<and>
   is_nan (margin_vs_sector_avg (hd (integrate_data init [\<lparr> company_name = Some ''Company_B'', industry = Some ''Mining'',
        country = Some ''USA'', fiscal_year = Some 2024, revenue = Fin 50,
        ebitda = Fin 5, ebitda_margin = Fin 10, valuation_multiple = Fin 7 \<rparr>]
      [\<lparr> bm_industry = Some ''Technology'', bm_average_margin = Fin 18,
         bm_sector_growth_rate = Fin 5, bm_average_valuation_multiple = Fin 9,
         bm_market_size_billions = Fin 100 \<rparr>,
       \<lparr> bm_industry = Some ''Technology'', bm_average_margin = Fin 19,
         bm_sector_growth_rate = Fin 6, bm_average_valuation_multiple = Fin 8,
         bm_market_size_billions = Fin 120 \<rparr>] ''2024-01-01 00:00:00''))) \<and>
   matches
      [\<lparr> bm_industry = Some ''Technology'', bm_average_margin = Fin 18,
         bm_sector_growth_rate = Fin 5, bm_average_valuation_multiple = Fin 9,
         bm_market_size_billions = Fin 100 \<rparr>,
       \<lparr> bm_industry = Some ''Technology'', bm_average_margin = Fin 19,
         bm_sector_growth_rate = Fin 6, bm_average_valuation_multiple = Fin 8,
         bm_market_size_billions = Fin 120 \<rparr>]
      \<lparr> company_name = Some ''Company_A'', industry = Some ''Technology'',
        country = Some ''Germany'', fiscal_year = Some 2024, revenue = Fin 107,
        ebitda = float64 (107 / 5), ebitda_margin = Fin 20, valuation_multiple = Fin 10 \<rparr> \<noteq> [] \<and>
   length (integrate_data init [\<lparr> company_name = Some ''Company_A'', industry = Some ''Technology'',
        country = Some ''Germany'', fiscal_year = Some 2024, revenue = Fin 107,
        ebitda = float64 (107 / 5), ebitda_margin = Fin 20, valuation_multiple = Fin 10 \<rparr>]
      [\<lparr> bm_industry = Some ''Technology'', bm_average_margin = Fin 18,
         bm_sector_growth_rate = Fin 5, bm_average_valuation_multiple = Fin 9,
         bm_market_size_billions = Fin 100 \<rparr>,
       \<lparr> bm_industry = Some ''Technology'', bm_average_margin = Fin 19,
         bm_sector_growth_rate = Fin 6, bm_average_valuation_multiple = Fin 8,
         bm_market_size_billions = Fin 120 \<rparr>] ''2024-01-01 00:00:00'') = 2"
proof -
  let ?pa = "\<lparr> company_name = Some ''Company_A'', industry = Some ''Technology'',
        country = Some ''Germany'', fiscal_year = Some 2024, revenue = Fin 107,
        ebitda = float64 (107 / 5), ebitda_margin = Fin 20, valuation_multiple = Fin 10 \<rparr>"
  let ?pb = "\<lparr> company_name = Some ''Company_B'', industry = Some ''Mining'',
        country = Some ''USA'', fiscal_year = Some 2024, revenue = Fin 50,
        ebitda = Fin 5, ebitda_margin = Fin 10, valuation_multiple = Fin 7 \<rparr>"
  let ?B = "[\<lparr> bm_industry = Some ''Technology'', bm_average_margin = Fin 18,
         bm_sector_growth_rate = Fin 5, bm_average_valuation_multiple = Fin 9,
         bm_market_size_billions = Fin 100 \<rparr>,
       \<lparr> bm_industry = Some ''Technology'', bm_average_margin = Fin 19,
         bm_sector_growth_rate = Fin 6, bm_average_valuation_multiple = Fin 8,
         bm_market_size_billions = Fin 120 \<rparr>]"
  let ?t = "''2024-01-01 00:00:00''"
  have m0: "matches ?B ?pb = []" by (simp add: matches_def)
  have m2: "length (matches ?B ?pa) = 2" by (simp add: matches_def)
  then have m2': "matches ?B ?pa \<noteq> []" by auto
  have h1: "\<forall>p\<in>set [?pb]. length (matches ?B p) \<le> 1" by (simp add: m0)
  note T1 = integrate_data_left_join [of init "[?pb]" ?B ?t "[]" ?pb "[]"]
  note T2 = integrate_data_left_join [of init "[?pa]" ?B ?t "[]" ?pa "[]"]
  from T1 h1 have l1: "length (integrate_data init [?pb] ?B ?t) = 1" by simp
  then have "integrate_data init [?pb] ?B ?t \<noteq> []" by auto
  then have mem: "hd (integrate_data init [?pb] ?B ?t) \<in> set (integrate_data init [?pb] ?B ?t)"
    by (rule hd_in_set)
  from T1 m0 mem have nulls:
    "is_nan (average_margin (hd (integrate_data init [?pb] ?B ?t)))"
    "is_nan (valuation_vs_sector_avg (hd (integrate_data init [?pb] ?B ?t)))"
    "is_nan (margin_vs_sector_avg (hd (integrate_data init [?pb] ?B ?t)))"
    by blast+
  from T2 m2' m2 have l2: "length (integrate_data init [?pa] ?B ?t) = 2" by simp
  from m0 l1 nulls m2' l2 show ?thesis by simp
qed



lemma np_round_is_nan: "is_nan x \<Longrightarrow> is_nan (np_round d x)"
  by (cases x) (simp_all add: np_round_NaN)

lemma fsub_is_nan: "is_nan y \<Longrightarrow> is_nan (fsub x y)"
  by (cases y) (simp_all add: fsub_NaN)

text \<open>
  C4. In every row of the integrated output each delta is the private cell minus the
  benchmark cell of that row, rounded to 2 decimals: when it is finite it is the float of
  a number with 2 decimal places. A row of a record with a benchmark match carries the
  cells of one matching benchmark row, and its deltas are taken against them. The delta is
  NaN when the benchmark cell is NaN, and both deltas are NaN in the row of a record
  without a match.
\<close>

theorem integrate_data_deltas:
  assumes "row \<in> set (integrate_data self P B now)"
  shows "valuation_vs_sector_avg row =
           np_round 2 (fsub (valuation_multiple row) (average_valuation_multiple row)) \<and>
         margin_vs_sector_avg row =
           np_round 2 (fsub (ebitda_margin row) (average_margin row)) \<and>
         has_decimals 2 (valuation_vs_sector_avg row) \<and>
         has_decimals 2 (margin_vs_sector_avg row) \<and>
         (is_nan (average_valuation_multiple row) \<longrightarrow> is_nan (valuation_vs_sector_avg row)) \<and>
         (is_nan (average_margin row) \<longrightarrow> is_nan (margin_vs_sector_avg row)) \<and>
         (matches B (private_part row) = [] \<longrightarrow>
            is_nan (valuation_vs_sector_avg row) \<and> is_nan (margin_vs_sector_avg row)) \<and>
         (matches B (private_part row) \<noteq> [] \<longrightarrow>
            (\<exists>b\<in>set (matches B (private_part row)).
               average_valuation_multiple row = bm_average_valuation_multiple b \<and>
               average_margin row = bm_average_margin b \<and>
               valuation_vs_sector_avg row =
                 np_round 2 (fsub (valuation_multiple row) (bm_average_valuation_multiple b)) \<and>
               margin_vs_sector_avg row =
                 np_round 2 (fsub (ebitda_margin row) (bm_average_margin b))))"
proof -
  from assms obtain m where m: "m \<in> set (merge_left P B)"
    and row: "row = with_columns self now m
            (np_round 2 (fsub (valuation_multiple m) (average_valuation_multiple m)))
            (np_round 2 (fsub (ebitda_margin m) (average_margin m)))"
    unfolding integrate_data_map by auto
  have v: "valuation_vs_sector_avg row =
           np_round 2 (fsub (valuation_multiple row) (average_valuation_multiple row))"
    and g: "margin_vs_sector_avg row =
           np_round 2 (fsub (ebitda_margin row) (average_margin row))"
    unfolding row by (simp_all add: with_columns_def)
  have hv: "has_decimals 2 (valuation_vs_sector_avg row)"
    unfolding v by (rule has_decimals_np_round)
  have hg: "has_decimals 2 (margin_vs_sector_avg row)"
    unfolding g by (rule has_decimals_np_round)
  have nv: "is_nan (average_valuation_multiple row) \<longrightarrow> is_nan (valuation_vs_sector_avg row)"
    unfolding v by (simp add: np_round_is_nan fsub_is_nan)
  have ng: "is_nan (average_margin row) \<longrightarrow> is_nan (margin_vs_sector_avg row)"
    unfolding g by (simp add: np_round_is_nan fsub_is_nan)
  from assms obtain p where p: "p \<in> set P" and rp: "row \<in> set (integrate_data self [p] B now)"
    unfolding set_integrate_data [of self P] by blast
  show ?thesis
  proof (cases "matches B p = []")
    case True
    with rp have r: "row = with_columns self now (paired p NaN NaN NaN NaN) NaN NaN"
      by (simp add: integrate_data_unmatched)
    have pp: "private_part row = p"
      unfolding r by (rule private_part_with_columns)
    have "is_nan (valuation_vs_sector_avg row) \<and> is_nan (margin_vs_sector_avg row)"
      unfolding r by (simp add: with_columns_def)
    with v g hv hg nv ng True pp show ?thesis by simp
  next
    case False
    with rp obtain b where b: "b \<in> set (matches B p)"
      and r: "row = with_columns self now
                  (paired p (bm_average_margin b) (bm_sector_growth_rate b)
                     (bm_average_valuation_multiple b) (bm_market_size_billions b))
                  (np_round 2 (fsub (valuation_multiple p) (bm_average_valuation_multiple b)))
                  (np_round 2 (fsub (ebitda_margin p) (bm_average_margin b)))"
      by (auto simp add: integrate_data_matched)
    have pp: "private_part row = p"
      unfolding r by (rule private_part_with_columns)
    have cells: "average_valuation_multiple row = bm_average_valuation_multiple b \<and>
               average_margin row = bm_average_margin b \<and>
               valuation_vs_sector_avg row =
                 np_round 2 (fsub (valuation_multiple row) (bm_average_valuation_multiple b)) \<and>
               margin_vs_sector_avg row =
                 np_round 2 (fsub (ebitda_margin row) (bm_average_margin b))"
      unfolding r by (simp add: with_columns_def paired_def)
    from b cells have "\<exists>b\<in>set (matches B p).
               average_valuation_multiple row = bm_average_valuation_multiple b \<and>
               average_margin row = bm_average_margin b \<and>
               valuation_vs_sector_avg row =
                 np_round 2 (fsub (valuation_multiple row) (bm_average_valuation_multiple b)) \<and>
               margin_vs_sector_avg row =
                 np_round 2 (fsub (ebitda_margin row) (bm_average_margin b))"
      by blast
    with v g hv hg nv ng False pp show ?thesis by simp
  qed
qed

text \<open>
  Company_A (multiple 10.1, margin 20.1) against the Technology benchmark (multiple 9.8,
  margin 18.3): the float difference of the multiples is 0.29999999999999893 and the delta
  is 0.3; the delta of the margins is 1.8. Company_B has no benchmark row: its deltas are
  NaN.
\<close>

theorem integrate_data_deltas_witness:
  "(hd (integrate_data init [\<lparr> company_name = Some ''Company_A'', industry = Some ''Technology'',
        country = Some ''Germany'', fiscal_year = Some 2024, revenue = Fin 107,
        ebitda = float64 (107 / 5), ebitda_margin = float64 (201 / 10),
        valuation_multiple = float64 (101 / 10) \<rparr>]
      [\<lparr> bm_industry = Some ''Technology'', bm_average_margin = float64 (183 / 10),
         bm_sector_growth_rate = Fin 5, bm_average_valuation_multiple = float64 (49 / 5),
         bm_market_size_billions = Fin 100 \<rparr>] ''2024-01-01 00:00:00'')) \<in> set (integrate_data init [\<lparr> company_name = Some ''Company_A'', industry = Some ''Technology'',
        country = Some ''Germany'', fiscal_year = Some 2024, revenue = Fin 107,
        ebitda = float64 (107 / 5), ebitda_margin = float64 (201 / 10),
        valuation_multiple = float64 (101 / 10) \<rparr>]
      [\<lparr> bm_industry = Some ''Technology'', bm_average_margin = float64 (183 / 10),
         bm_sector_growth_rate = Fin 5, bm_average_valuation_multiple = float64 (49 / 5),
         bm_market_size_billions = Fin 100 \<rparr>] ''2024-01-01 00:00:00'') \<and>
   matches [\<lparr> bm_industry = Some ''Technology'', bm_average_margin = float64 (183 / 10),
         bm_sector_growth_rate = Fin 5, bm_average_valuation_multiple = float64 (49 / 5),
         bm_market_size_billions = Fin 100 \<rparr>] (private_part (hd (integrate_data init [\<lparr> company_name = Some ''Company_A'', industry = Some ''Technology'',
        country = Some ''Germany'', fiscal_year = Some 2024, revenue = Fin 107,
        ebitda = float64 (107 / 5), ebitda_margin = float64 (201 / 10),
        valuation_multiple = float64 (101 / 10) \<rparr>]
      [\<lparr> bm_industry = Some ''Technology'', bm_average_margin = float64 (183 / 10),
         bm_sector_growth_rate = Fin 5, bm_average_valuation_multiple = float64 (49 / 5),
         bm_market_size_billions = Fin 100 \<rparr>] ''2024-01-01 00:00:00''))) \<noteq> [] \<and>
   fsub (float64 (101 / 10)) (float64 (49 / 5)) = float64 (29999999999999893 / 100000000000000000) \<and>
   valuation_vs_sector_avg (hd (integrate_data init [\<lparr> company_name = Some ''Company_A'', industry = Some ''Technology'',
        country = Some ''Germany'', fiscal_year = Some 2024, revenue = Fin 107,
        ebitda = float64 (107 / 5), ebitda_margin = float64 (201 / 10),
        valuation_multiple = float64 (101 / 10) \<rparr>]
      [\<lparr> bm_industry = Some ''Technology'', bm_average_margin = float64 (183 / 10),
         bm_sector_growth_rate = Fin 5, bm_average_valuation_multiple = float64 (49 / 5),
         bm_market_size_billions = Fin 100 \<rparr>] ''2024-01-01 00:00:00'')) = float64 (30 / 100) \<and>
   float64 (29999999999999893 / 100000000000000000) \<noteq> float64 (30 / 100) \<and>
   margin_vs_sector_avg (hd (integrate_data init [\<lparr> company_name = Some ''Company_A'', industry = Some ''Technology'',
        country = Some ''Germany'', fiscal_year = Some 2024, revenue = Fin 107,
        ebitda = float64 (107 / 5), ebitda_margin = float64 (201 / 10),
        valuation_multiple = float64 (101 / 10) \<rparr>]
      [\<lparr> bm_industry = Some ''Technology'', bm_average_margin = float64 (183 / 10),
         bm_sector_growth_rate = Fin 5, bm_average_valuation_multiple = float64 (49 / 5),
         bm_market_size_billions = Fin 100 \<rparr>] ''2024-01-01 00:00:00'')) = float64 (180 / 100) \<and>
   has_decimals 2 (valuation_vs_sector_avg (hd (integrate_data init [\<lparr> company_name = Some ''Company_A'', industry = Some ''Technology'',
        country = Some ''Germany'', fiscal_year = Some 2024, revenue = Fin 107,
        ebitda = float64 (107 / 5), ebitda_margin = float64 (201 / 10),
        valuation_multiple = float64 (101 / 10) \<rparr>]
      [\<lparr> bm_industry = Some ''Technology'', bm_average_margin = float64 (183 / 10),
         bm_sector_growth_rate = Fin 5, bm_average_valuation_multiple = float64 (49 / 5),
         bm_market_size_billions = Fin 100 \<rparr>] ''2024-01-01 00:00:00''))) \<and>
   has_decimals 2 (margin_vs_sector_avg (hd (integrate_data init [\<lparr> company_name = Some ''Company_A'', industry = Some ''Technology'',
        country = Some ''Germany'', fiscal_year = Some 2024, revenue = Fin 107,
        ebitda = float64 (107 / 5), ebitda_margin = float64 (201 / 10),
        valuation_multiple = float64 (101 / 10) \<rparr>]
      [\<lparr> bm_industry = Some ''Technology'', bm_average_margin = float64 (183 / 10),
         bm_sector_growth_rate = Fin 5, bm_average_valuation_multiple = float64 (49 / 5),
         bm_market_size_billions = Fin 100 \<rparr>] ''2024-01-01 00:00:00''))) \<and>
   (hd (integrate_data init [\<lparr> company_name = Some ''Company_B'', industry = Some ''Mining'',
        country = Some ''USA'', fiscal_year = Some 2024, revenue = Fin 50,
        ebitda = Fin 5, ebitda_margin = Fin 10, valuation_multiple = Fin 7 \<rparr>]
      [\<lparr> bm_industry = Some ''Technology'', bm_average_margin = float64 (183 / 10),
         bm_sector_growth_rate = Fin 5, bm_average_valuation_multiple = float64 (49 / 5),
         bm_market_size_billions = Fin 100 \<rparr>] ''2024-01-01 00:00:00'')) \<in> set (integrate_data init [\<lparr> company_name = Some ''Company_B'', industry = Some ''Mining'',
        country = Some ''USA'', fiscal_year = Some 2024, revenue = Fin 50,
        ebitda = Fin 5, ebitda_margin = Fin 10, valuation_multiple = Fin 7 \<rparr>]
      [\<lparr> bm_industry = Some ''Technology'', bm_average_margin = float64 (183 / 10),
         bm_sector_growth_rate = Fin 5, bm_average_valuation_multiple = float64 (49 / 5),
         bm_market_size_billions = Fin 100 \<rparr>] ''2024-01-01 00:00:00'') \<and>
   matches [\<lparr> bm_industry = Some ''Technology'', bm_average_margin = float64 (183 / 10),
         bm_sector_growth_rate = Fin 5, bm_average_valuation_multiple = float64 (49 / 5),
         bm_market_size_billions = Fin 100 \<rparr>] (private_part (hd (integrate_data init [\<lparr> company_name = Some ''Company_B'', industry = Some ''Mining'',
        country = Some ''USA'', fiscal_year = Some 2024, revenue = Fin 50,
        ebitda = Fin 5, ebitda_margin = Fin 10, valuation_multiple = Fin 7 \<rparr>]
      [\<lparr> bm_industry = Some ''Technology'', bm_average_margin = float64 (183 / 10),
         bm_sector_growth_rate = Fin 5, bm_average_valuation_multiple = float64 (49 / 5),
         bm_market_size_billions = Fin 100 \<rparr>] ''2024-01-01 00:00:00''))) = [] \<and>
   is_nan (average_valuation_multiple (hd (integrate_data init [\<lparr> company_name = Some ''Company_B'', industry = Some ''Mining'',
        country = Some ''USA'', fiscal_year = Some 2024, revenue = Fin 50,
        ebitda = Fin 5, ebitda_margin = Fin 10, valuation_multiple = Fin 7 \<rparr>]
      [\<lparr> bm_industry = Some ''Technology'', bm_average_margin = float64 (183 / 10),
         bm_sector_growth_rate = Fin 5, bm_average_valuation_multiple = float64 (49 / 5),
         bm_market_size_billions = Fin 100 \<rparr>] ''2024-01-01 00:00:00''))) \<and>
   is_nan (average_margin (hd (integrate_data init [\<lparr> company_name = Some ''Company_B'', industry = Some ''Mining'',
        country = Some ''USA'', fiscal_year = Some 2024, revenue = Fin 50,
        ebitda = Fin 5, ebitda_margin = Fin 10, valuation_multiple = Fin 7 \<rparr>]
      [\<lparr> bm_industry = Some ''Technology'', bm_average_margin = float64 (183 / 10),
         bm_sector_growth_rate = Fin 5, bm_average_valuation_multiple = float64 (49 / 5),
         bm_market_size_billions = Fin 100 \<rparr>] ''2024-01-01 00:00:00''))) \<and>
   is_nan (valuation_vs_sector_avg (hd (integrate_data init [\<lparr> company_name = Some ''Company_B'', industry = Some ''Mining'',
        country = Some ''USA'', fiscal_year = Some 2024, revenue = Fin 50,
        ebitda = Fin 5, ebitda_margin = Fin 10, valuation_multiple = Fin 7 \<rparr>]
      [\<lparr> bm_industry = Some ''Technology'', bm_average_margin = float64 (183 / 10),
         bm_sector_growth_rate = Fin 5, bm_average_valuation_multiple = float64 (49 / 5),
         bm_market_size_billions = Fin 100 \<rparr>] ''2024-01-01 00:00:00''))) \<and>
   is_nan (margin_vs_sector_avg (hd (integrate_data init [\<lparr> company_name = Some ''Company_B'', industry = Some ''Mining'',
        country = Some ''USA'', fiscal_year = Some 2024, revenue = Fin 50,
        ebitda = Fin 5, ebitda_margin = Fin 10, valuation_multiple = Fin 7 \<rparr>]
      [\<lparr> bm_industry = Some ''Technology'', bm_average_margin = float64 (183 / 10),
         bm_sector_growth_rate = Fin 5, bm_average_valuation_multiple = float64 (49 / 5),
         bm_market_size_billions = Fin 100 \<rparr>] ''2024-01-01 00:00:00'')))"
proof -
  let ?pa = "\<lparr> company_name = Some ''Company_A'', industry = Some ''Technology'',
        country = Some ''Germany'', fiscal_year = Some 2024, revenue = Fin 107,
        ebitda = float64 (107 / 5), ebitda_margin = float64 (201 / 10),
        valuation_multiple = float64 (101 / 10) \<rparr>"
  let ?pb = "\<lparr> company_name = Some ''Company_B'', industry = Some ''Mining'',
        country = Some ''USA'', fiscal_year = Some 2024, revenue = Fin 50,
        ebitda = Fin 5, ebitda_margin = Fin 10, valuation_multiple = Fin 7 \<rparr>"
  let ?B = "[\<lparr> bm_industry = Some ''Technology'', bm_average_margin = float64 (183 / 10),
         bm_sector_growth_rate = Fin 5, bm_average_valuation_multiple = float64 (49 / 5),
         bm_market_size_billions = Fin 100 \<rparr>]"
  let ?t = "''2024-01-01 00:00:00''"
  let ?r1 = "hd (integrate_data init [?pa] ?B ?t)"
  let ?r2 = "hd (integrate_data init [?pb] ?B ?t)"
  have n1: "integrate_data init [?pa] ?B ?t \<noteq> []"
    and n2: "integrate_data init [?pb] ?B ?t \<noteq> []"
    by (simp_all add: integrate_data_map merge_left_def left_rows_def matches_def)
  have h1: "?r1 \<in> set (integrate_data init [?pa] ?B ?t)" using n1 by (rule hd_in_set)
  have h2: "?r2 \<in> set (integrate_data init [?pb] ?B ?t)" using n2 by (rule hd_in_set)
  have m1: "matches ?B (private_part ?r1) \<noteq> []" by code_simp
  have m2: "matches ?B (private_part ?r2) = []" by code_simp
  have a2: "is_nan (average_valuation_multiple ?r2)" "is_nan (average_margin ?r2)" by code_simp+
  have raw: "fsub (float64 (101 / 10)) (float64 (49 / 5)) =
      float64 (29999999999999893 / 100000000000000000)"
    by code_simp
  have ne: "float64 (29999999999999893 / 100000000000000000) \<noteq> float64 (30 / 100)"
    by code_simp
  have e1: "np_round 2 (fsub (valuation_multiple ?r1) (average_valuation_multiple ?r1)) =
      float64 (30 / 100)"
    by code_simp
  have e2: "np_round 2 (fsub (ebitda_margin ?r1) (average_margin ?r1)) = float64 (180 / 100)"
    by code_simp
  note T1 = integrate_data_deltas [OF h1]
  from T1 have "valuation_vs_sector_avg ?r1 =
      np_round 2 (fsub (valuation_multiple ?r1) (average_valuation_multiple ?r1))"
    by blast
  then have d1: "valuation_vs_sector_avg ?r1 = float64 (30 / 100)"
    by (simp only: e1)
  from T1 have "margin_vs_sector_avg ?r1 =
      np_round 2 (fsub (ebitda_margin ?r1) (average_margin ?r1))"
    by blast
  then have d1': "margin_vs_sector_avg ?r1 = float64 (180 / 100)"
    by (simp only: e2)
  from T1 have hd: "has_decimals 2 (valuation_vs_sector_avg ?r1)"
    "has_decimals 2 (margin_vs_sector_avg ?r1)"
    by blast+
  from integrate_data_deltas [OF h2] m2 a2
  have d2: "is_nan (valuation_vs_sector_avg ?r2)" "is_nan (margin_vs_sector_avg ?r2)"
    by blast+
  from h1 m1 raw d1 ne d1' hd h2 m2 a2 d2 show ?thesis by blast
qed


section \<open>Order of the rows\<close>

lemma length_normalize_private_data: "length (normalize_private_data self df) = length df"
  by (simp add: normalize_private_data_map)

lemma normalize_private_data_nth:
  "i < length df \<Longrightarrow> normalize_private_data self [df ! i] = [normalize_private_data self df ! i]"
  by (simp add: normalize_private_data_map)

lemma matches_distinct:
  "distinct (map bm_industry B) \<Longrightarrow> length (matches B p) \<le> 1"
proof (induction B)
  case Nil
  show ?case by (simp add: matches_def)
next
  case (Cons b B)
  show ?case
  proof (cases "bm_industry b = industry p")
    case True
    with Cons.prems have "industry p \<notin> bm_industry ` set B" by simp
    then have "\<forall>r\<in>set B. bm_industry r \<noteq> industry p" by force
    then have "filter (\<lambda>r. bm_industry r = industry p) B = []"
      by (simp add: filter_empty_conv)
    with True show ?thesis by (simp add: matches_def)
  next
    case False
    with Cons show ?thesis by (simp add: matches_def)
  qed
qed

lemma integrate_data_single:
  assumes "length (matches B p) \<le> 1"
  shows "\<exists>r. integrate_data self [p] B now = [r] \<and> private_part r = p"
proof (cases "matches B p")
  case Nil
  then show ?thesis
    by (simp add: integrate_data_unmatched private_part_with_columns)
next
  case (Cons b bs)
  with assms have bs: "bs = []" by simp
  have "matches B p \<noteq> []" using Cons by simp
  from integrate_data_matched [OF this, of self now] Cons bs show ?thesis
    by (simp add: private_part_with_columns)
qed

lemma integrate_data_unique_nth:
  assumes "\<forall>p\<in>set P. length (matches B p) \<le> 1" and "i < length P"
  shows "integrate_data self [P ! i] B now = [integrate_data self P B now ! i] \<and>
         private_part (integrate_data self P B now ! i) = P ! i"
  using assms
proof (induction P arbitrary: i)
  case Nil
  then show ?case by simp
next
  case (Cons p P)
  from Cons.prems(1) have "length (matches B p) \<le> 1" by simp
  from integrate_data_single [OF this, of self now]
  obtain r where r: "integrate_data self [p] B now = [r]" and pr: "private_part r = p" by blast
  have whole: "integrate_data self (p # P) B now = r # integrate_data self P B now"
    using integrate_data_Cons [of self p P B now] r by simp
  show ?case
  proof (cases i)
    case 0
    with whole r pr show ?thesis by simp
  next
    case (Suc j)
    with Cons.prems have "j < length P" and "\<forall>p\<in>set P. length (matches B p) \<le> 1" by simp_all
    from Cons.IH [OF this(2) this(1)] whole Suc show ?thesis by simp
  qed
qed

text \<open>
  C9. The normalizer returns one row for each input row, in input order: output row \<open>i\<close>
  is the normalization of input row \<open>i\<close> alone and carries its company name. When the
  benchmark industries are pairwise distinct, the integrated frame has one row for each
  private row, and its row \<open>i\<close> is the integration of private row \<open>i\<close> alone, with the
  private cells of that row.
\<close>

theorem order_and_multiplicity_preserved:
  "length (normalize_private_data self df) = length df \<and>
   (\<forall>i<length df.
      normalize_private_data self [df ! i] = [normalize_private_data self df ! i] \<and>
      company_name (normalize_private_data self df ! i) = raw_company_name (df ! i)) \<and>
   (distinct (map bm_industry B) \<longrightarrow>
      length (integrate_data self P B now) = length P \<and>
      (\<forall>i<length P.
         integrate_data self [P ! i] B now = [integrate_data self P B now ! i] \<and>
         private_part (integrate_data self P B now ! i) = P ! i))"
proof -
  have a: "length (normalize_private_data self df) = length df"
    by (rule length_normalize_private_data)
  have b: "\<forall>i<length df.
      normalize_private_data self [df ! i] = [normalize_private_data self df ! i] \<and>
      company_name (normalize_private_data self df ! i) = raw_company_name (df ! i)"
    by (simp add: normalize_private_data_map final_columns_def)
  have c: "length (integrate_data self P B now) = length P \<and>
      (\<forall>i<length P.
         integrate_data self [P ! i] B now = [integrate_data self P B now ! i] \<and>
         private_part (integrate_data self P B now ! i) = P ! i)"
    if d: "distinct (map bm_industry B)"
  proof -
    have u: "\<forall>p\<in>set P. length (matches B p) \<le> 1"
      using matches_distinct [OF d] by blast
    have "length (integrate_data self P B now) = length P"
      unfolding length_integrate_data using sum_max_unique [of P "\<lambda>p. length (matches B p)"] u
      by blast
    with integrate_data_unique_nth [OF u] show ?thesis by blast
  qed
  from a b c show ?thesis by blast
qed


text \<open>Two raw rows, and two normalized rows against two benchmark rows of distinct industries.\<close>

theorem order_and_multiplicity_preserved_witness:
  "(1::nat) < length [\<lparr> raw_company_name = Some ''Company_A'', raw_industry = Some ''Technology'',
        revenue_local = Fin 100, ebitda_local = Fin 20, raw_valuation_multiple = Fin 10,
        raw_country = Some ''Germany'', raw_fiscal_year = Some 2024,
        raw_currency = Some ''EUR'' \<rparr>,
      \<lparr> raw_company_name = Some ''Company_B'', raw_industry = Some ''Mining'',
        revenue_local = Fin 50, ebitda_local = Fin 5, raw_valuation_multiple = Fin 7,
        raw_country = Some ''USA'', raw_fiscal_year = Some 2024,
        raw_currency = Some ''USD'' \<rparr>] \<and>
   normalize_private_data init [\<lparr> raw_company_name = Some ''Company_B'', raw_industry = Some ''Mining'',
        revenue_local = Fin 50, ebitda_local = Fin 5, raw_valuation_multiple = Fin 7,
        raw_country = Some ''USA'', raw_fiscal_year = Some 2024,
        raw_currency = Some ''USD'' \<rparr>] =
     [normalize_private_data init [\<lparr> raw_company_name = Some ''Company_A'', raw_industry = Some ''Technology'',
        revenue_local = Fin 100, ebitda_local = Fin 20, raw_valuation_multiple = Fin 10,
        raw_country = Some ''Germany'', raw_fiscal_year = Some 2024,
        raw_currency = Some ''EUR'' \<rparr>,
      \<lparr> raw_company_name = Some ''Company_B'', raw_industry = Some ''Mining'',
        revenue_local = Fin 50, ebitda_local = Fin 5, raw_valuation_multiple = Fin 7,
        raw_country = Some ''USA'', raw_fiscal_year = Some 2024,
        raw_currency = Some ''USD'' \<rparr>] ! 1] \<and>
   company_name (normalize_private_data init [\<lparr> raw_company_name = Some ''Company_A'', raw_industry = Some ''Technology'',
        revenue_local = Fin 100, ebitda_local = Fin 20, raw_valuation_multiple = Fin 10,
        raw_country = Some ''Germany'', raw_fiscal_year = Some 2024,
        raw_currency = Some ''EUR'' \<rparr>,
      \<lparr> raw_company_name = Some ''Company_B'', raw_industry = Some ''Mining'',
        revenue_local = Fin 50, ebitda_local = Fin 5, raw_valuation_multiple = Fin 7,
        raw_country = Some ''USA'', raw_fiscal_year = Some 2024,
        raw_currency = Some ''USD'' \<rparr>] ! 1) = Some ''Company_B'' \<and>
   distinct (map bm_industry [\<lparr> bm_industry = Some ''Technology'', bm_average_margin = Fin 18,
         bm_sector_growth_rate = Fin 5, bm_average_valuation_multiple = Fin 9,
         bm_market_size_billions = Fin 100 \<rparr>,
       \<lparr> bm_industry = Some ''Healthcare'', bm_average_margin = Fin 25,
         bm_sector_growth_rate = Fin 4, bm_average_valuation_multiple = Fin 11,
         bm_market_size_billions = Fin 300 \<rparr>]) \<and>
   length (integrate_data init [\<lparr> company_name = Some ''Company_A'', industry = Some ''Technology'',
        country = Some ''Germany'', fiscal_year = Some 2024, revenue = Fin 107,
        ebitda = float64 (107 / 5), ebitda_margin = Fin 20, valuation_multiple = Fin 10 \<rparr>,
      \<lparr> company_name = Some ''Company_B'', industry = Some ''Mining'',
        country = Some ''USA'', fiscal_year = Some 2024, revenue = Fin 50,
        ebitda = Fin 5, ebitda_margin = Fin 10, valuation_multiple = Fin 7 \<rparr>]
      [\<lparr> bm_industry = Some ''Technology'', bm_average_margin = Fin 18,
         bm_sector_growth_rate = Fin 5, bm_average_valuation_multiple = Fin 9,
         bm_market_size_billions = Fin 100 \<rparr>,
       \<lparr> bm_industry = Some ''Healthcare'', bm_average_margin = Fin 25,
         bm_sector_growth_rate = Fin 4, bm_average_valuation_multiple = Fin 11,
         bm_market_size_billions = Fin 300 \<rparr>] ''2024-01-01 00:00:00'') = 2 \<and>
   private_part (integrate_data init [\<lparr> company_name = Some ''Company_A'', industry = Some ''Technology'',
        country = Some ''Germany'', fiscal_year = Some 2024, revenue = Fin 107,
        ebitda = float64 (107 / 5), ebitda_margin = Fin 20, valuation_multiple = Fin 10 \<rparr>,
      \<lparr> company_name = Some ''Company_B'', industry = Some ''Mining'',
        country = Some ''USA'', fiscal_year = Some 2024, revenue = Fin 50,
        ebitda = Fin 5, ebitda_margin = Fin 10, valuation_multiple = Fin 7 \<rparr>]
      [\<lparr> bm_industry = Some ''Technology'', bm_average_margin = Fin 18,
         bm_sector_growth_rate = Fin 5, bm_average_valuation_multiple = Fin 9,
         bm_market_size_billions = Fin 100 \<rparr>,
       \<lparr> bm_industry = Some ''Healthcare'', bm_average_margin = Fin 25,
         bm_sector_growth_rate = Fin 4, bm_average_valuation_multiple = Fin 11,
         bm_market_size_billions = Fin 300 \<rparr>] ''2024-01-01 00:00:00'' ! 1) = \<lparr> company_name = Some ''Company_B'', industry = Some ''Mining'',
        country = Some ''USA'', fiscal_year = Some 2024, revenue = Fin 50,
        ebitda = Fin 5, ebitda_margin = Fin 10, valuation_multiple = Fin 7 \<rparr>"
proof -
  let ?ra = "\<lparr> raw_company_name = Some ''Company_A'', raw_industry = Some ''Technology'',
        revenue_local = Fin 100, ebitda_local = Fin 20, raw_valuation_multiple = Fin 10,
        raw_country = Some ''Germany'', raw_fiscal_year = Some 2024,
        raw_currency = Some ''EUR'' \<rparr>"
  let ?rb = "\<lparr> raw_company_name = Some ''Company_B'', raw_industry = Some ''Mining'',
        revenue_local = Fin 50, ebitda_local = Fin 5, raw_valuation_multiple = Fin 7,
        raw_country = Some ''USA'', raw_fiscal_year = Some 2024,
        raw_currency = Some ''USD'' \<rparr>"
  let ?pa = "\<lparr> company_name = Some ''Company_A'', industry = Some ''Technology'',
        country = Some ''Germany'', fiscal_year = Some 2024, revenue = Fin 107,
        ebitda = float64 (107 / 5), ebitda_margin = Fin 20, valuation_multiple = Fin 10 \<rparr>"
  let ?pb = "\<lparr> company_name = Some ''Company_B'', industry = Some ''Mining'',
        country = Some ''USA'', fiscal_year = Some 2024, revenue = Fin 50,
        ebitda = Fin 5, ebitda_margin = Fin 10, valuation_multiple = Fin 7 \<rparr>"
  let ?B = "[\<lparr> bm_industry = Some ''Technology'', bm_average_margin = Fin 18,
         bm_sector_growth_rate = Fin 5, bm_average_valuation_multiple = Fin 9,
         bm_market_size_billions = Fin 100 \<rparr>,
       \<lparr> bm_industry = Some ''Healthcare'', bm_average_margin = Fin 25,
         bm_sector_growth_rate = Fin 4, bm_average_valuation_multiple = Fin 11,
         bm_market_size_billions = Fin 300 \<rparr>]"
  let ?t = "''2024-01-01 00:00:00''"
  have h1: "(1::nat) < length [?ra, ?rb]" by simp
  have h2: "distinct (map bm_industry ?B)" by simp
  have h3: "(1::nat) < length [?pa, ?pb]" by simp
  note T = order_and_multiplicity_preserved [of init "[?ra, ?rb]" ?B "[?pa, ?pb]" ?t]
  from T h1 have n:
    "normalize_private_data init [[?ra, ?rb] ! 1] = [normalize_private_data init [?ra, ?rb] ! 1]"
    "company_name (normalize_private_data init [?ra, ?rb] ! 1) = raw_company_name ([?ra, ?rb] ! 1)"
    by blast+
  from T h2 have l: "length (integrate_data init [?pa, ?pb] ?B ?t) = length [?pa, ?pb]"
    by blast
  from T h2 h3 have p:
    "private_part (integrate_data init [?pa, ?pb] ?B ?t ! 1) = [?pa, ?pb] ! 1"
    by blast
  from h1 n h2 l p show ?thesis by simp
qed

section \<open>Validation\<close>

lemma length_columns: "length columns = 18"
  by (simp add: columns_def)

lemma length_isnull: "length (isnull r) = 18"
  by (simp add: isnull_def)

lemma missing_cells_sum:
  "missing_cells df = (\<Sum>j\<leftarrow>[0..<18]. count_true (\<lambda>r. isnull r ! j) df)"
  by (simp add: missing_cells_def isnull_sum_def length_columns comp_def)

lemma missing_cells_none:
  assumes "\<forall>r\<in>set df. \<forall>c\<in>set (isnull r). \<not> c"
  shows "missing_cells df = 0"
proof -
  have "count_true (\<lambda>r. isnull r ! j) df = 0" if "j < 18" for j
  proof -
    have "\<forall>r\<in>set df. \<not> isnull r ! j"
      using assms that by (metis length_isnull nth_mem)
    then show ?thesis by (simp add: count_true_def filter_empty_conv)
  qed
  then show ?thesis
    unfolding missing_cells_sum by (simp add: sum_list_eq_0_iff)
qed

lemma missing_cells_all:
  assumes "\<forall>r\<in>set df. \<forall>c\<in>set (isnull r). c"
  shows "missing_cells df = total_cells df"
proof -
  have "count_true (\<lambda>r. isnull r ! j) df = length df" if "j < 18" for j
  proof -
    have "\<forall>r\<in>set df. isnull r ! j"
      using assms that by (metis length_isnull nth_mem)
    then show ?thesis by (simp add: count_true_def)
  qed
  then have "map (\<lambda>j. count_true (\<lambda>r. isnull r ! j) df) [0..<18] = map (\<lambda>j. length df) [0..<18]"
    by (intro map_cong) simp_all
  then have "missing_cells df = (\<Sum>j\<leftarrow>[0..<18]. length df)"
    unfolding missing_cells_sum by (rule arg_cong [where f = sum_list])
  also have "\<dots> = length df * 18"
    by (simp add: sum_list_triv)
  finally show ?thesis by (simp add: total_cells_def length_columns)
qed

lemma np_round_100: "np_round 2 (Fin 100) = Fin 100"
  by code_simp

lemma np_round_0: "np_round 2 (Fin 0) = Fin 0"
  by code_simp

lemma missing_cells_Nil: "missing_cells [] = 0"
  by (simp add: missing_cells_sum count_true_def)

lemma np_true_divide_same:
  assumes "0 < n" and "n < 2 ^ 53"
  shows "np_true_divide n n = (Fin 1, [])"
proof -
  have nz: "(of_int n :: rat) \<noteq> 0" using assms(1) by simp
  then have "fdiv (Fin (of_int n)) (Fin (of_int n)) = float64 1"
    by (simp add: fdiv_def)
  with nz show ?thesis
    by (simp add: np_true_divide_def float64_of_int [OF assms] float64_1)
qed

lemma np_true_divide_zero:
  assumes "0 < n" and "n < 2 ^ 53"
  shows "np_true_divide 0 n = (Fin 0, [])"
proof -
  have nz: "(of_int n :: rat) \<noteq> 0" using assms(1) by simp
  with assms(1) show ?thesis
    by (simp add: np_true_divide_def float64_of_int [OF assms] float64_0 fdiv_def zero_of_def)
qed

lemma np_true_divide_zero_zero: "np_true_divide 0 0 = (NaN, [InvalidValue])"
  by (simp add: np_true_divide_def float64_0 fdiv_def)

lemma fmul_1_100: "fmul (Fin 1) (Fin 100) = Fin 100"
  by (simp add: fmul_def fmul_with_def float64_100)

lemma fmul_0_100: "fmul (Fin 0) (Fin 100) = Fin 0"
  by (simp add: fmul_def fmul_with_def zero_of_def)

lemma fmul_NaN: "fmul NaN y = NaN"
  by (simp add: fmul_def fmul_with_def)

lemma score_formula:
  "data_quality_score (validate_data df) =
     np_round 2
       (fmul (fst (np_true_divide (int (total_cells df) - int (missing_cells df))
                     (int (total_cells df))))
             (Fin 100))"
  by (simp add: validate_data_def)

lemma score_no_missing:
  assumes "0 < total_cells df" and "total_cells df < 2 ^ 53" and "missing_cells df = 0"
  shows "data_quality_score (validate_data df) = Fin 100 \<and> validate_data_warnings df = []"
proof -
  have p: "0 < int (total_cells df)" using assms(1) by simp
  have "int (total_cells df) < int (2 ^ 53)" using assms(2) by (simp only: of_nat_less_iff)
  then have b: "int (total_cells df) < 2 ^ 53" by simp
  show ?thesis
    unfolding score_formula validate_data_warnings_def assms(3)
    by (simp add: np_true_divide_same [OF p b] fmul_1_100 np_round_100)
qed

lemma score_all_missing:
  assumes "0 < total_cells df" and "total_cells df < 2 ^ 53"
    and "missing_cells df = total_cells df"
  shows "data_quality_score (validate_data df) = Fin 0 \<and> validate_data_warnings df = []"
proof -
  have p: "0 < int (total_cells df)" using assms(1) by simp
  have "int (total_cells df) < int (2 ^ 53)" using assms(2) by (simp only: of_nat_less_iff)
  then have b: "int (total_cells df) < 2 ^ 53" by simp
  show ?thesis
    unfolding score_formula validate_data_warnings_def assms(3)
    by (simp add: np_true_divide_zero [OF p b] fmul_0_100 np_round_0)
qed

lemma score_empty:
  assumes "total_cells df = 0"
  shows "data_quality_score (validate_data df) = NaN \<and>
         validate_data_warnings df = [InvalidValue]"
proof -
  from assms have "df = []" by (simp add: total_cells_def length_columns)
  then show ?thesis
    unfolding score_formula validate_data_warnings_def
    by (simp add: total_cells_def missing_cells_Nil np_true_divide_zero_zero fmul_NaN np_round_NaN)
qed

text \<open>
  C3 (amended). The score is \<open>(total_cells - missing_cells) / total_cells * 100\<close>,
  computed in floats and rounded to 2 decimals, with \<open>total_cells\<close> the number of rows
  times the 18 columns. A table with at least one cell (and fewer than \<open>2 ^ 53\<close>) and no
  missing cell scores 100.0; such a table whose cells are all missing scores 0.0; neither
  emits a warning. For a table without cells the validator has no guard: it performs the
  float division \<open>0 / 0\<close>, which raises nothing, emits the invalid-value warning of
  numpy and gives NaN, the missing-value marker.
\<close>

theorem validate_data_quality_score:
  "total_cells df = length df * 18 \<and>
   data_quality_score (validate_data df) =
     np_round 2
       (fmul (fst (np_true_divide (int (total_cells df) - int (missing_cells df))
                     (int (total_cells df))))
             (Fin 100)) \<and>
   has_decimals 2 (data_quality_score (validate_data df)) \<and>
   (0 < total_cells df \<and> total_cells df < 2 ^ 53 \<and> missing_cells df = 0 \<longrightarrow>
      data_quality_score (validate_data df) = Fin 100 \<and> validate_data_warnings df = []) \<and>
   (0 < total_cells df \<and> total_cells df < 2 ^ 53 \<and> missing_cells df = total_cells df \<longrightarrow>
      data_quality_score (validate_data df) = Fin 0 \<and> validate_data_warnings df = []) \<and>
   (df \<noteq> [] \<and> total_cells df < 2 ^ 53 \<and> (\<forall>r\<in>set df. \<forall>c\<in>set (isnull r). \<not> c) \<longrightarrow>
      missing_cells df = 0 \<and> data_quality_score (validate_data df) = Fin 100) \<and>
   (df \<noteq> [] \<and> total_cells df < 2 ^ 53 \<and> (\<forall>r\<in>set df. \<forall>c\<in>set (isnull r). c) \<longrightarrow>
      missing_cells df = total_cells df \<and> data_quality_score (validate_data df) = Fin 0) \<and>
   (total_cells df = 0 \<longrightarrow>
      data_quality_score (validate_data df) = NaN \<and>
      validate_data_warnings df = [InvalidValue])"
proof -
  have t: "total_cells df = length df * 18"
    by (simp add: total_cells_def length_columns)
  have pos: "0 < total_cells df" if "df \<noteq> []"
    using that by (simp add: t)
  have h: "has_decimals 2 (data_quality_score (validate_data df))"
    unfolding score_formula by (rule has_decimals_np_round)
  have a: "0 < total_cells df \<and> total_cells df < 2 ^ 53 \<and> missing_cells df = 0 \<longrightarrow>
      data_quality_score (validate_data df) = Fin 100 \<and> validate_data_warnings df = []"
    using score_no_missing by blast
  have b: "0 < total_cells df \<and> total_cells df < 2 ^ 53 \<and> missing_cells df = total_cells df \<longrightarrow>
      data_quality_score (validate_data df) = Fin 0 \<and> validate_data_warnings df = []"
    using score_all_missing by blast
  have c: "df \<noteq> [] \<and> total_cells df < 2 ^ 53 \<and> (\<forall>r\<in>set df. \<forall>c\<in>set (isnull r). \<not> c) \<longrightarrow>
      missing_cells df = 0 \<and> data_quality_score (validate_data df) = Fin 100"
    using pos missing_cells_none [of df] score_no_missing [of df] by blast
  have d: "df \<noteq> [] \<and> total_cells df < 2 ^ 53 \<and> (\<forall>r\<in>set df. \<forall>c\<in>set (isnull r). c) \<longrightarrow>
      missing_cells df = total_cells df \<and> data_quality_score (validate_data df) = Fin 0"
    using pos missing_cells_all [of df] score_all_missing [of df] by blast
  have e: "total_cells df = 0 \<longrightarrow>
      data_quality_score (validate_data df) = NaN \<and>
      validate_data_warnings df = [InvalidValue]"
    using score_empty by blast
  from t score_formula [of df] h a b c d e show ?thesis by blast
qed

text \<open>
  The empty table: the division is performed with both operands zero (numpy warns of an
  invalid value), and the default 100.0 of the source's dictionary is overwritten.
\<close>

theorem validate_data_empty_counterexample:
  "total_cells [] = 0 \<and>
   np_true_divide (int (total_cells []) - int (missing_cells [])) (int (total_cells [])) =
     (NaN, [InvalidValue]) \<and>
   validate_data_warnings [] = [InvalidValue] \<and>
   data_quality_score (validate_data []) \<noteq> Fin 100"
proof -
  have t: "total_cells [] = 0" by (simp add: total_cells_def)
  have d: "np_true_divide (int (total_cells []) - int (missing_cells [])) (int (total_cells [])) =
     (NaN, [InvalidValue])"
    by (simp add: t missing_cells_Nil np_true_divide_zero_zero)
  from score_empty [OF t] t d show ?thesis by simp
qed


text \<open>
  A table without a missing cell, a table of missing cells, the empty table, the table of
  one unmatched record (6 missing cells of 18: 66.67), and a table of 80 rows with 657
  missing cells of 1440, where the float quotient is 54.37499999999999 and the score 54.37.
\<close>

theorem validate_data_quality_score_witness:
  "(integrate_data init [\<lparr> company_name = Some ''Company_A'', industry = Some ''Technology'',
        country = Some ''Germany'', fiscal_year = Some 2024, revenue = Fin 107,
        ebitda = float64 (107 / 5), ebitda_margin = Fin 20, valuation_multiple = Fin 10 \<rparr>]
      [\<lparr> bm_industry = Some ''Technology'', bm_average_margin = Fin 18,
         bm_sector_growth_rate = Fin 5, bm_average_valuation_multiple = Fin 9,
         bm_market_size_billions = Fin 100 \<rparr>] ''2024-01-01 00:00:00'') \<noteq> [] \<and>
   total_cells (integrate_data init [\<lparr> company_name = Some ''Company_A'', industry = Some ''Technology'',
        country = Some ''Germany'', fiscal_year = Some 2024, revenue = Fin 107,
        ebitda = float64 (107 / 5), ebitda_margin = Fin 20, valuation_multiple = Fin 10 \<rparr>]
      [\<lparr> bm_industry = Some ''Technology'', bm_average_margin = Fin 18,
         bm_sector_growth_rate = Fin 5, bm_average_valuation_multiple = Fin 9,
         bm_market_size_billions = Fin 100 \<rparr>] ''2024-01-01 00:00:00'') < 2 ^ 53 \<and>
   True \<notin> set (isnull (hd (integrate_data init [\<lparr> company_name = Some ''Company_A'', industry = Some ''Technology'',
        country = Some ''Germany'', fiscal_year = Some 2024, revenue = Fin 107,
        ebitda = float64 (107 / 5), ebitda_margin = Fin 20, valuation_multiple = Fin 10 \<rparr>]
      [\<lparr> bm_industry = Some ''Technology'', bm_average_margin = Fin 18,
         bm_sector_growth_rate = Fin 5, bm_average_valuation_multiple = Fin 9,
         bm_market_size_billions = Fin 100 \<rparr>] ''2024-01-01 00:00:00''))) \<and>
   missing_cells (integrate_data init [\<lparr> company_name = Some ''Company_A'', industry = Some ''Technology'',
        country = Some ''Germany'', fiscal_year = Some 2024, revenue = Fin 107,
        ebitda = float64 (107 / 5), ebitda_margin = Fin 20, valuation_multiple = Fin 10 \<rparr>]
      [\<lparr> bm_industry = Some ''Technology'', bm_average_margin = Fin 18,
         bm_sector_growth_rate = Fin 5, bm_average_valuation_multiple = Fin 9,
         bm_market_size_billions = Fin 100 \<rparr>] ''2024-01-01 00:00:00'') = 0 \<and>
   data_quality_score (validate_data (integrate_data init [\<lparr> company_name = Some ''Company_A'', industry = Some ''Technology'',
        country = Some ''Germany'', fiscal_year = Some 2024, revenue = Fin 107,
        ebitda = float64 (107 / 5), ebitda_margin = Fin 20, valuation_multiple = Fin 10 \<rparr>]
      [\<lparr> bm_industry = Some ''Technology'', bm_average_margin = Fin 18,
         bm_sector_growth_rate = Fin 5, bm_average_valuation_multiple = Fin 9,
         bm_market_size_billions = Fin 100 \<rparr>] ''2024-01-01 00:00:00'')) = Fin 100 \<and>
   validate_data_warnings (integrate_data init [\<lparr> company_name = Some ''Company_A'', industry = Some ''Technology'',
        country = Some ''Germany'', fiscal_year = Some 2024, revenue = Fin 107,
        ebitda = float64 (107 / 5), ebitda_margin = Fin 20, valuation_multiple = Fin 10 \<rparr>]
      [\<lparr> bm_industry = Some ''Technology'', bm_average_margin = Fin 18,
         bm_sector_growth_rate = Fin 5, bm_average_valuation_multiple = Fin 9,
         bm_market_size_billions = Fin 100 \<rparr>] ''2024-01-01 00:00:00'') = [] \<and>
   total_cells [\<lparr> company_name = None, industry = None, country = None, fiscal_year = None,
        revenue = NaN, ebitda = NaN, ebitda_margin = NaN, valuation_multiple = NaN,
        average_margin = NaN, sector_growth_rate = NaN, average_valuation_multiple = NaN,
        market_size_billions = NaN, data_source = None, currency = None, units = None,
        last_updated = None, valuation_vs_sector_avg = NaN, margin_vs_sector_avg = NaN \<rparr>] < 2 ^ 53 \<and>
   False \<notin> set (isnull \<lparr> company_name = None, industry = None, country = None, fiscal_year = None,
        revenue = NaN, ebitda = NaN, ebitda_margin = NaN, valuation_multiple = NaN,
        average_margin = NaN, sector_growth_rate = NaN, average_valuation_multiple = NaN,
        market_size_billions = NaN, data_source = None, currency = None, units = None,
        last_updated = None, valuation_vs_sector_avg = NaN, margin_vs_sector_avg = NaN \<rparr>) \<and>
   missing_cells [\<lparr> company_name = None, industry = None, country = None, fiscal_year = None,
        revenue = NaN, ebitda = NaN, ebitda_margin = NaN, valuation_multiple = NaN,
        average_margin = NaN, sector_growth_rate = NaN, average_valuation_multiple = NaN,
        market_size_billions = NaN, data_source = None, currency = None, units = None,
        last_updated = None, valuation_vs_sector_avg = NaN, margin_vs_sector_avg = NaN \<rparr>] = total_cells [\<lparr> company_name = None, industry = None, country = None, fiscal_year = None,
        revenue = NaN, ebitda = NaN, ebitda_margin = NaN, valuation_multiple = NaN,
        average_margin = NaN, sector_growth_rate = NaN, average_valuation_multiple = NaN,
        market_size_billions = NaN, data_source = None, currency = None, units = None,
        last_updated = None, valuation_vs_sector_avg = NaN, margin_vs_sector_avg = NaN \<rparr>] \<and>
   data_quality_score (validate_data [\<lparr> company_name = None, industry = None, country = None, fiscal_year = None,
        revenue = NaN, ebitda = NaN, ebitda_margin = NaN, valuation_multiple = NaN,
        average_margin = NaN, sector_growth_rate = NaN, average_valuation_multiple = NaN,
        market_size_billions = NaN, data_source = None, currency = None, units = None,
        last_updated = None, valuation_vs_sector_avg = NaN, margin_vs_sector_avg = NaN \<rparr>]) = Fin 0 \<and>
   total_cells [] = 0 \<and>
   data_quality_score (validate_data []) = NaN \<and>
   validate_data_warnings [] = [InvalidValue] \<and>
   data_quality_score (validate_data (integrate_data init [\<lparr> company_name = Some ''Company_B'', industry = Some ''Mining'',
        country = Some ''USA'', fiscal_year = Some 2024, revenue = Fin 50,
        ebitda = Fin 5, ebitda_margin = Fin 10, valuation_multiple = Fin 7 \<rparr>]
      [\<lparr> bm_industry = Some ''Technology'', bm_average_margin = Fin 18,
         bm_sector_growth_rate = Fin 5, bm_average_valuation_multiple = Fin 9,
         bm_market_size_billions = Fin 100 \<rparr>] ''2024-01-01 00:00:00'')) = float64 (6667 / 100) \<and>
   has_decimals 2 (data_quality_score (validate_data (integrate_data init [\<lparr> company_name = Some ''Company_B'', industry = Some ''Mining'',
        country = Some ''USA'', fiscal_year = Some 2024, revenue = Fin 50,
        ebitda = Fin 5, ebitda_margin = Fin 10, valuation_multiple = Fin 7 \<rparr>]
      [\<lparr> bm_industry = Some ''Technology'', bm_average_margin = Fin 18,
         bm_sector_growth_rate = Fin 5, bm_average_valuation_multiple = Fin 9,
         bm_market_size_billions = Fin 100 \<rparr>] ''2024-01-01 00:00:00''))) \<and>
   total_cells (replicate 36 \<lparr> company_name = None, industry = None, country = None, fiscal_year = None,
        revenue = NaN, ebitda = NaN, ebitda_margin = NaN, valuation_multiple = NaN,
        average_margin = NaN, sector_growth_rate = NaN, average_valuation_multiple = NaN,
        market_size_billions = NaN, data_source = None, currency = None, units = None,
        last_updated = None, valuation_vs_sector_avg = NaN, margin_vs_sector_avg = NaN \<rparr>
      @ \<lparr> company_name = Some ''Company_B'', industry = Some ''Mining'',
        country = None, fiscal_year = None,
        revenue = Fin 50, ebitda = Fin 5, ebitda_margin = Fin 10, valuation_multiple = NaN,
        average_margin = NaN, sector_growth_rate = NaN, average_valuation_multiple = NaN,
        market_size_billions = NaN, data_source = Some ''Integrated_Private_and_Benchmark'',
        currency = Some ''USD'', units = Some ''millions'',
        last_updated = Some ''2024-01-01 00:00:00'',
        valuation_vs_sector_avg = NaN, margin_vs_sector_avg = NaN \<rparr>
      # replicate 43 \<lparr> company_name = Some ''Company_A'', industry = Some ''Technology'',
        country = Some ''Germany'', fiscal_year = Some 2024,
        revenue = Fin 107, ebitda = Fin 21, ebitda_margin = Fin 20, valuation_multiple = Fin 10,
        average_margin = Fin 18, sector_growth_rate = Fin 5, average_valuation_multiple = Fin 9,
        market_size_billions = Fin 100, data_source = Some ''Integrated_Private_and_Benchmark'',
        currency = Some ''USD'', units = Some ''millions'',
        last_updated = Some ''2024-01-01 00:00:00'',
        valuation_vs_sector_avg = Fin 1, margin_vs_sector_avg = Fin 2 \<rparr>) = 1440 \<and>
   missing_cells (replicate 36 \<lparr> company_name = None, industry = None, country = None, fiscal_year = None,
        revenue = NaN, ebitda = NaN, ebitda_margin = NaN, valuation_multiple = NaN,
        average_margin = NaN, sector_growth_rate = NaN, average_valuation_multiple = NaN,
        market_size_billions = NaN, data_source = None, currency = None, units = None,
        last_updated = None, valuation_vs_sector_avg = NaN, margin_vs_sector_avg = NaN \<rparr>
      @ \<lparr> company_name = Some ''Company_B'', industry = Some ''Mining'',
        country = None, fiscal_year = None,
        revenue = Fin 50, ebitda = Fin 5, ebitda_margin = Fin 10, valuation_multiple = NaN,
        average_margin = NaN, sector_growth_rate = NaN, average_valuation_multiple = NaN,
        market_size_billions = NaN, data_source = Some ''Integrated_Private_and_Benchmark'',
        currency = Some ''USD'', units = Some ''millions'',
        last_updated = Some ''2024-01-01 00:00:00'',
        valuation_vs_sector_avg = NaN, margin_vs_sector_avg = NaN \<rparr>
      # replicate 43 \<lparr> company_name = Some ''Company_A'', industry = Some ''Technology'',
        country = Some ''Germany'', fiscal_year = Some 2024,
        revenue = Fin 107, ebitda = Fin 21, ebitda_margin = Fin 20, valuation_multiple = Fin 10,
        average_margin = Fin 18, sector_growth_rate = Fin 5, average_valuation_multiple = Fin 9,
        market_size_billions = Fin 100, data_source = Some ''Integrated_Private_and_Benchmark'',
        currency = Some ''USD'', units = Some ''millions'',
        last_updated = Some ''2024-01-01 00:00:00'',
        valuation_vs_sector_avg = Fin 1, margin_vs_sector_avg = Fin 2 \<rparr>) = 657 \<and>
   data_quality_score (validate_data (replicate 36 \<lparr> company_name = None, industry = None, country = None, fiscal_year = None,
        revenue = NaN, ebitda = NaN, ebitda_margin = NaN, valuation_multiple = NaN,
        average_margin = NaN, sector_growth_rate = NaN, average_valuation_multiple = NaN,
        market_size_billions = NaN, data_source = None, currency = None, units = None,
        last_updated = None, valuation_vs_sector_avg = NaN, margin_vs_sector_avg = NaN \<rparr>
      @ \<lparr> company_name = Some ''Company_B'', industry = Some ''Mining'',
        country = None, fiscal_year = None,
        revenue = Fin 50, ebitda = Fin 5, ebitda_margin = Fin 10, valuation_multiple = NaN,
        average_margin = NaN, sector_growth_rate = NaN, average_valuation_multiple = NaN,
        market_size_billions = NaN, data_source = Some ''Integrated_Private_and_Benchmark'',
        currency = Some ''USD'', units = Some ''millions'',
        last_updated = Some ''2024-01-01 00:00:00'',
        valuation_vs_sector_avg = NaN, margin_vs_sector_avg = NaN \<rparr>
      # replicate 43 \<lparr> company_name = Some ''Company_A'', industry = Some ''Technology'',
        country = Some ''Germany'', fiscal_year = Some 2024,
        revenue = Fin 107, ebitda = Fin 21, ebitda_margin = Fin 20, valuation_multiple = Fin 10,
        average_margin = Fin 18, sector_growth_rate = Fin 5, average_valuation_multiple = Fin 9,
        market_size_billions = Fin 100, data_source = Some ''Integrated_Private_and_Benchmark'',
        currency = Some ''USD'', units = Some ''millions'',
        last_updated = Some ''2024-01-01 00:00:00'',
        valuation_vs_sector_avg = Fin 1, margin_vs_sector_avg = Fin 2 \<rparr>)) = float64 (5437 / 100) \<and>
   float64 (5437 / 100) \<noteq> float64 (5438 / 100)"
proof -
  let ?full = "(integrate_data init [\<lparr> company_name = Some ''Company_A'', industry = Some ''Technology'',
        country = Some ''Germany'', fiscal_year = Some 2024, revenue = Fin 107,
        ebitda = float64 (107 / 5), ebitda_margin = Fin 20, valuation_multiple = Fin 10 \<rparr>]
      [\<lparr> bm_industry = Some ''Technology'', bm_average_margin = Fin 18,
         bm_sector_growth_rate = Fin 5, bm_average_valuation_multiple = Fin 9,
         bm_market_size_billions = Fin 100 \<rparr>] ''2024-01-01 00:00:00'')"
  let ?part = "(integrate_data init [\<lparr> company_name = Some ''Company_B'', industry = Some ''Mining'',
        country = Some ''USA'', fiscal_year = Some 2024, revenue = Fin 50,
        ebitda = Fin 5, ebitda_margin = Fin 10, valuation_multiple = Fin 7 \<rparr>]
      [\<lparr> bm_industry = Some ''Technology'', bm_average_margin = Fin 18,
         bm_sector_growth_rate = Fin 5, bm_average_valuation_multiple = Fin 9,
         bm_market_size_billions = Fin 100 \<rparr>] ''2024-01-01 00:00:00'')"
  let ?n = "\<lparr> company_name = None, industry = None, country = None, fiscal_year = None,
        revenue = NaN, ebitda = NaN, ebitda_margin = NaN, valuation_multiple = NaN,
        average_margin = NaN, sector_growth_rate = NaN, average_valuation_multiple = NaN,
        market_size_billions = NaN, data_source = None, currency = None, units = None,
        last_updated = None, valuation_vs_sector_avg = NaN, margin_vs_sector_avg = NaN \<rparr>"
  have f1: "?full \<noteq> []" by code_simp
  have f2: "True \<notin> set (isnull (hd ?full))" by code_simp
  have f3: "\<forall>r\<in>set ?full. \<forall>c\<in>set (isnull r). \<not> c" by code_simp
  have f4: "total_cells ?full = 18" by code_simp
  then have f5: "total_cells ?full < 2 ^ 53" "0 < total_cells ?full" by simp_all
  have n1: "[?n] \<noteq> []" by simp
  have n2: "False \<notin> set (isnull ?n)" by (simp add: isnull_def)
  have n3: "\<forall>r\<in>set [?n]. \<forall>c\<in>set (isnull r). c" by (simp add: isnull_def)
  have n4: "total_cells [?n] < 2 ^ 53" by (simp add: total_cells_def length_columns)
  have e1: "total_cells [] = 0" by (simp add: total_cells_def)
  note F = validate_data_quality_score [of ?full]
  from F f1 f3 f5
  have a: "missing_cells ?full = 0" "data_quality_score (validate_data ?full) = Fin 100"
    by blast+
  from F a(1) f5 have a': "validate_data_warnings ?full = []"
    by blast
  from validate_data_quality_score [of "[?n]"] n1 n3 n4
  have b: "missing_cells [?n] = total_cells [?n]" "data_quality_score (validate_data [?n]) = Fin 0"
    by blast+
  from validate_data_quality_score [of "[]"] e1
  have c: "data_quality_score (validate_data []) = NaN" "validate_data_warnings [] = [InvalidValue]"
    by blast+
  have p1: "np_round 2
       (fmul (fst (np_true_divide (int (total_cells ?part) - int (missing_cells ?part))
                     (int (total_cells ?part))))
             (Fin 100)) = float64 (6667 / 100)"
    by code_simp
  note P = validate_data_quality_score [of ?part]
  from P have "data_quality_score (validate_data ?part) =
     np_round 2
       (fmul (fst (np_true_divide (int (total_cells ?part) - int (missing_cells ?part))
                     (int (total_cells ?part))))
             (Fin 100))"
    by blast
  then have d: "data_quality_score (validate_data ?part) = float64 (6667 / 100)"
    by (simp only: p1)
  from P have d': "has_decimals 2 (data_quality_score (validate_data ?part))"
    by blast
  let ?big = "(replicate 36 \<lparr> company_name = None, industry = None, country = None, fiscal_year = None,
        revenue = NaN, ebitda = NaN, ebitda_margin = NaN, valuation_multiple = NaN,
        average_margin = NaN, sector_growth_rate = NaN, average_valuation_multiple = NaN,
        market_size_billions = NaN, data_source = None, currency = None, units = None,
        last_updated = None, valuation_vs_sector_avg = NaN, margin_vs_sector_avg = NaN \<rparr>
      @ \<lparr> company_name = Some ''Company_B'', industry = Some ''Mining'',
        country = None, fiscal_year = None,
        revenue = Fin 50, ebitda = Fin 5, ebitda_margin = Fin 10, valuation_multiple = NaN,
        average_margin = NaN, sector_growth_rate = NaN, average_valuation_multiple = NaN,
        market_size_billions = NaN, data_source = Some ''Integrated_Private_and_Benchmark'',
        currency = Some ''USD'', units = Some ''millions'',
        last_updated = Some ''2024-01-01 00:00:00'',
        valuation_vs_sector_avg = NaN, margin_vs_sector_avg = NaN \<rparr>
      # replicate 43 \<lparr> company_name = Some ''Company_A'', industry = Some ''Technology'',
        country = Some ''Germany'', fiscal_year = Some 2024,
        revenue = Fin 107, ebitda = Fin 21, ebitda_margin = Fin 20, valuation_multiple = Fin 10,
        average_margin = Fin 18, sector_growth_rate = Fin 5, average_valuation_multiple = Fin 9,
        market_size_billions = Fin 100, data_source = Some ''Integrated_Private_and_Benchmark'',
        currency = Some ''USD'', units = Some ''millions'',
        last_updated = Some ''2024-01-01 00:00:00'',
        valuation_vs_sector_avg = Fin 1, margin_vs_sector_avg = Fin 2 \<rparr>)"
  have g1: "total_cells ?big = 1440" by code_simp
  have g2: "missing_cells ?big = 657" by code_simp
  have g3: "np_round 2 (fmul (fst (np_true_divide (int 1440 - int 657) (int 1440))) (Fin 100)) =
      float64 (5437 / 100)"
    by code_simp
  have g4: "float64 (5437 / 100) \<noteq> float64 (5438 / 100)" by code_simp
  from validate_data_quality_score [of ?big]
  have "data_quality_score (validate_data ?big) =
     np_round 2
       (fmul (fst (np_true_divide (int (total_cells ?big) - int (missing_cells ?big))
                     (int (total_cells ?big))))
             (Fin 100))"
    by blast
  then have g: "data_quality_score (validate_data ?big) = float64 (5437 / 100)"
    by (simp only: g1 g2 g3)
  from f1 f5(1) f2 a a' n4 n2 b e1 c d d' g1 g2 g g4 show ?thesis by blast
qed

lemma count_true_Cons:
  "count_true id (b # bs) = (if b then Suc (count_true id bs) else count_true id bs)"
  by (simp add: count_true_def)

lemma card_unseen_seen:
  assumes "x \<in> S"
  shows "card (insert x A - S) = card (A - insert x S)"
proof -
  from assms have "insert x A - S = A - insert x S" by blast
  then show ?thesis by (rule arg_cong)
qed

lemma card_unseen_new:
  assumes "x \<notin> S" and "finite A"
  shows "card (insert x A - S) = Suc (card (A - insert x S))"
proof -
  from assms(1) have eq: "insert x A - S = insert x (A - insert x S)" by blast
  have fin: "finite (A - insert x S)" using assms(2) by (rule finite_Diff)
  have nin: "x \<notin> A - insert x S" by blast
  show ?thesis unfolding eq using fin nin by (rule card_insert_disjoint)
qed

lemma count_duplicated_from:
  "count_true id (duplicated_from seen xs) + card (set xs - set seen) = length xs"
proof (induction xs arbitrary: seen)
  case Nil
  show ?case by (simp add: count_true_def)
next
  case (Cons x xs)
  have ih: "count_true id (duplicated_from (x # seen) xs) + card (set xs - insert x (set seen)) = length xs"
    using Cons.IH [of "x # seen"] by (simp only: list.set)
  show ?case
  proof (cases "x \<in> set seen")
    case True
    from card_unseen_seen [OF True, of "set xs"] ih True show ?thesis
      by (simp only: duplicated_from.simps count_true_Cons list.set list.size if_True)
  next
    case False
    from card_unseen_new [OF False, of "set xs"] ih False show ?thesis
      by (simp only: duplicated_from.simps count_true_Cons list.set list.size if_False) simp
  qed
qed

lemma count_duplicated: "count_true id (duplicated xs) = length xs - card (set xs)"
proof -
  have "count_true id (duplicated_from [] xs) + card (set xs - set []) = length xs"
    by (rule count_duplicated_from)
  then have "count_true id (duplicated xs) + card (set xs) = length xs"
    by (simp only: duplicated_def list.set Diff_empty)
  then show ?thesis by arith
qed


lemma sum_count_minus_one:
  "(\<Sum>v\<in>set xs. count_list xs v - 1) = length xs - card (set xs)"
proof -
  have "(\<Sum>v\<in>set xs. count_list xs v - 1) = (\<Sum>v\<in>set xs. count_list xs v) - (\<Sum>v\<in>set xs. 1)"
  proof (rule sum_subtractf_nat)
    fix v assume "v \<in> set xs"
    then have "count_list xs v \<noteq> 0" using count_list_0_iff [of xs v] by blast
    then show "1 \<le> count_list xs v" by arith
  qed
  also have "(\<Sum>v\<in>set xs. count_list xs v) = length xs"
    by (rule sum_count_set) simp_all
  finally show ?thesis by simp
qed

lemma duplicate_companies_card:
  "duplicate_companies (validate_data df) = length df - card (set (map company_name df))"
proof -
  have "duplicate_companies (validate_data df) = count_true id (duplicated (map company_name df))"
    by (simp add: validate_data_def)
  also have "\<dots> = length (map company_name df) - card (set (map company_name df))"
    by (rule count_duplicated)
  finally show ?thesis by (simp only: length_map)
qed

lemma duplicated_four:
  "a \<noteq> b \<Longrightarrow> count_true id (duplicated [a, a, b, a]) = 2"
  by (simp add: duplicated_def count_true_def)

text \<open>
  C5. \<open>duplicate_companies\<close> counts the rows whose company name occurred in an earlier
  row: a name that occurs \<open>k\<close> times adds \<open>k - 1\<close>, so the count is the number of rows
  minus the number of distinct names. For the names \<open>[A, A, B, A]\<close> it is 2.
\<close>

theorem validate_data_duplicate_companies:
  "duplicate_companies (validate_data df) =
     (\<Sum>v\<in>set (map company_name df). count_list (map company_name df) v - 1) \<and>
   duplicate_companies (validate_data df) =
     length df - card (set (map company_name df)) \<and>
   (a \<noteq> b \<and> map company_name df = [a, a, b, a] \<longrightarrow>
      duplicate_companies (validate_data df) = 2)"
proof -
  have d: "duplicate_companies (validate_data df) = length df - card (set (map company_name df))"
    by (rule duplicate_companies_card)
  have "(\<Sum>v\<in>set (map company_name df). count_list (map company_name df) v - 1) =
        length (map company_name df) - card (set (map company_name df))"
    by (rule sum_count_minus_one)
  with d have s: "duplicate_companies (validate_data df) =
     (\<Sum>v\<in>set (map company_name df). count_list (map company_name df) v - 1)"
    by (simp only: length_map)
  have e: "a \<noteq> b \<and> map company_name df = [a, a, b, a] \<longrightarrow>
      duplicate_companies (validate_data df) = 2"
  proof
    assume h: "a \<noteq> b \<and> map company_name df = [a, a, b, a]"
    have "duplicate_companies (validate_data df) = count_true id (duplicated (map company_name df))"
      by (simp add: validate_data_def)
    also have "\<dots> = count_true id (duplicated [a, a, b, a])" using h by (simp only:)
    also have "\<dots> = 2" using h by (intro duplicated_four) blast
    finally show "duplicate_companies (validate_data df) = 2" .
  qed
  from s d e show ?thesis by (intro conjI)
qed


text \<open>Four records named A, A, B, A, integrated against an empty benchmark frame.\<close>

theorem validate_data_duplicate_companies_witness:
  "Some ''A'' \<noteq> Some ''B'' \<and>
   map company_name (integrate_data init
      (map (\<lambda>n. \<lparr> company_name = n, industry = Some ''Technology'',
                 country = Some ''USA'', fiscal_year = Some 2024, revenue = Fin 50,
                 ebitda = Fin 5, ebitda_margin = Fin 10, valuation_multiple = Fin 7 \<rparr>)
         [Some ''A'', Some ''A'', Some ''B'', Some ''A''])
      [] ''2024-01-01 00:00:00'') =
     [Some ''A'', Some ''A'', Some ''B'', Some ''A''] \<and>
   duplicate_companies (validate_data (integrate_data init
      (map (\<lambda>n. \<lparr> company_name = n, industry = Some ''Technology'',
                 country = Some ''USA'', fiscal_year = Some 2024, revenue = Fin 50,
                 ebitda = Fin 5, ebitda_margin = Fin 10, valuation_multiple = Fin 7 \<rparr>)
         [Some ''A'', Some ''A'', Some ''B'', Some ''A''])
      [] ''2024-01-01 00:00:00'')) = 2"
proof -
  let ?df = "(integrate_data init
      (map (\<lambda>n. \<lparr> company_name = n, industry = Some ''Technology'',
                 country = Some ''USA'', fiscal_year = Some 2024, revenue = Fin 50,
                 ebitda = Fin 5, ebitda_margin = Fin 10, valuation_multiple = Fin 7 \<rparr>)
         [Some ''A'', Some ''A'', Some ''B'', Some ''A''])
      [] ''2024-01-01 00:00:00'')"
  have h1: "Some ''A'' \<noteq> Some ''B''" by simp
  have h2: "map company_name ?df = [Some ''A'', Some ''A'', Some ''B'', Some ''A'']"
    by code_simp
  from validate_data_duplicate_companies [of ?df "Some ''A''" "Some ''B''"] h1 h2
  have "duplicate_companies (validate_data ?df) = 2" by blast
  with h1 h2 show ?thesis by blast
qed

lemma company_name_with_columns:
  "company_name (with_columns self now (paired p a b c d) v g) = company_name p"
  by (simp add: with_columns_def paired_def)

lemma company_names_single:
  "map company_name (integrate_data self [p] B now) =
     replicate (max 1 (length (matches B p))) (company_name p)"
proof (cases "matches B p = []")
  case True
  then show ?thesis
    by (simp add: integrate_data_unmatched company_name_with_columns)
next
  case False
  then have "max 1 (length (matches B p)) = length (matches B p)"
    by (cases "matches B p") simp_all
  with False show ?thesis
    by (simp add: integrate_data_matched comp_def company_name_with_columns map_replicate_const)
qed

lemma company_names_integrate_data:
  "map company_name (integrate_data self P B now) =
     concat (map (\<lambda>p. replicate (max 1 (length (matches B p))) (company_name p)) P)"
proof (induction P)
  case Nil
  show ?case by (simp add: integrate_data_map merge_left_def)
next
  case (Cons p P)
  have "map company_name (integrate_data self (p # P) B now) =
        map company_name (integrate_data self [p] B now) @
        map company_name (integrate_data self P B now)"
    by (simp only: integrate_data_Cons [of self p P] map_append)
  then show ?case
    by (simp only: company_names_single Cons.IH list.map concat.simps)
qed

lemma set_company_names:
  "set (map company_name (integrate_data self P B now)) = set (map company_name P)"
  unfolding company_names_integrate_data by (induction P) auto

lemma sum_max_split:
  "(\<Sum>p\<leftarrow>P. max (1::nat) (k p)) = length P + (\<Sum>p\<leftarrow>P. k p - 1)"
  by (induction P) (simp_all add: max_def)

text \<open>
  C10. The validator reads the joined frame. When the company names of the private frame
  are pairwise distinct, \<open>duplicate_companies\<close> of the integrated frame is the sum, over
  the private records, of the number of benchmark rows of the record's industry minus one
  (nothing for a record with no match or one match): the fan-out copies are counted as
  duplicates.
\<close>

theorem fan_out_counts_as_duplicates:
  assumes "distinct (map company_name P)"
  shows "duplicate_companies (validate_data (integrate_data self P B now)) =
           (\<Sum>p\<leftarrow>P. length (matches B p) - 1)"
proof -
  let ?df = "integrate_data self P B now"
  have "card (set (map company_name ?df)) = card (set (map company_name P))"
    by (simp only: set_company_names)
  also have "\<dots> = length (map company_name P)"
    using assms by (rule distinct_card)
  also have "\<dots> = length P"
    by (rule length_map)
  finally have c: "card (set (map company_name ?df)) = length P" .
  have l: "length ?df = length P + (\<Sum>p\<leftarrow>P. length (matches B p) - 1)"
    by (simp only: length_integrate_data sum_max_split)
  have "duplicate_companies (validate_data ?df) = length ?df - card (set (map company_name ?df))"
    by (rule duplicate_companies_card)
  with c l show ?thesis by arith
qed


text \<open>
  Two records with different names; three benchmark rows share the industry of the first
  record: two duplicates are reported.
\<close>

theorem fan_out_counts_as_duplicates_witness:
  "distinct (map company_name
     [\<lparr> company_name = Some ''Company_A'', industry = Some ''Technology'',
        country = Some ''Germany'', fiscal_year = Some 2024, revenue = Fin 107,
        ebitda = float64 (107 / 5), ebitda_margin = Fin 20, valuation_multiple = Fin 10 \<rparr>,
      \<lparr> company_name = Some ''Company_B'', industry = Some ''Mining'',
        country = Some ''USA'', fiscal_year = Some 2024, revenue = Fin 50,
        ebitda = Fin 5, ebitda_margin = Fin 10, valuation_multiple = Fin 7 \<rparr>]) \<and>
   length (matches
     [\<lparr> bm_industry = Some ''Technology'', bm_average_margin = Fin 18,
         bm_sector_growth_rate = Fin 5, bm_average_valuation_multiple = Fin 9,
         bm_market_size_billions = Fin 100 \<rparr>,
       \<lparr> bm_industry = Some ''Technology'', bm_average_margin = Fin 19,
         bm_sector_growth_rate = Fin 6, bm_average_valuation_multiple = Fin 8,
         bm_market_size_billions = Fin 120 \<rparr>,
       \<lparr> bm_industry = Some ''Technology'', bm_average_margin = Fin 20,
         bm_sector_growth_rate = Fin 7, bm_average_valuation_multiple = Fin 7,
         bm_market_size_billions = Fin 140 \<rparr>]
     \<lparr> company_name = Some ''Company_A'', industry = Some ''Technology'',
        country = Some ''Germany'', fiscal_year = Some 2024, revenue = Fin 107,
        ebitda = float64 (107 / 5), ebitda_margin = Fin 20, valuation_multiple = Fin 10 \<rparr>) = 3 \<and>
   duplicate_companies (validate_data (integrate_data init
     [\<lparr> company_name = Some ''Company_A'', industry = Some ''Technology'',
        country = Some ''Germany'', fiscal_year = Some 2024, revenue = Fin 107,
        ebitda = float64 (107 / 5), ebitda_margin = Fin 20, valuation_multiple = Fin 10 \<rparr>,
      \<lparr> company_name = Some ''Company_B'', industry = Some ''Mining'',
        country = Some ''USA'', fiscal_year = Some 2024, revenue = Fin 50,
        ebitda = Fin 5, ebitda_margin = Fin 10, valuation_multiple = Fin 7 \<rparr>]
     [\<lparr> bm_industry = Some ''Technology'', bm_average_margin = Fin 18,
         bm_sector_growth_rate = Fin 5, bm_average_valuation_multiple = Fin 9,
         bm_market_size_billions = Fin 100 \<rparr>,
       \<lparr> bm_industry = Some ''Technology'', bm_average_margin = Fin 19,
         bm_sector_growth_rate = Fin 6, bm_average_valuation_multiple = Fin 8,
         bm_market_size_billions = Fin 120 \<rparr>,
       \<lparr> bm_industry = Some ''Technology'', bm_average_margin = Fin 20,
         bm_sector_growth_rate = Fin 7, bm_average_valuation_multiple = Fin 7,
         bm_market_size_billions = Fin 140 \<rparr>] ''2024-01-01 00:00:00'')) = 2"
proof -
  let ?pa = "\<lparr> company_name = Some ''Company_A'', industry = Some ''Technology'',
        country = Some ''Germany'', fiscal_year = Some 2024, revenue = Fin 107,
        ebitda = float64 (107 / 5), ebitda_margin = Fin 20, valuation_multiple = Fin 10 \<rparr>"
  let ?pb = "\<lparr> company_name = Some ''Company_B'', industry = Some ''Mining'',
        country = Some ''USA'', fiscal_year = Some 2024, revenue = Fin 50,
        ebitda = Fin 5, ebitda_margin = Fin 10, valuation_multiple = Fin 7 \<rparr>"
  let ?B = "[\<lparr> bm_industry = Some ''Technology'', bm_average_margin = Fin 18,
         bm_sector_growth_rate = Fin 5, bm_average_valuation_multiple = Fin 9,
         bm_market_size_billions = Fin 100 \<rparr>,
       \<lparr> bm_industry = Some ''Technology'', bm_average_margin = Fin 19,
         bm_sector_growth_rate = Fin 6, bm_average_valuation_multiple = Fin 8,
         bm_market_size_billions = Fin 120 \<rparr>,
       \<lparr> bm_industry = Some ''Technology'', bm_average_margin = Fin 20,
         bm_sector_growth_rate = Fin 7, bm_average_valuation_multiple = Fin 7,
         bm_market_size_billions = Fin 140 \<rparr>]"
  let ?t = "''2024-01-01 00:00:00''"
  have h: "distinct (map company_name [?pa, ?pb])" by simp
  have m: "length (matches ?B ?pa) = 3" "length (matches ?B ?pb) = 0"
    by (simp_all add: matches_def)
  from fan_out_counts_as_duplicates [OF h, of init ?B ?t] m
  have "duplicate_companies (validate_data (integrate_data init [?pa, ?pb] ?B ?t)) = 2"
    by simp
  with h m show ?thesis by blast
qed

end
